theory Spec2Isabelle
  imports Complex_Main
begin

section \<open>JavaScript values and thrown values\<close>

text \<open>
  The program is TypeScript running on Node. Response bodies are untyped at run time
  (the casts \<^verbatim>\<open>as ApiError\<close> and \<^verbatim>\<open>as ApiResponse<T>\<close> check nothing), so parsed JSON
  is modelled as a JavaScript value. \<open>Undefined\<close> is never produced by a JSON parser but
  is what reading a missing property yields. An object is its list of own properties,
  read with \<open>map_of\<close>.
\<close>

datatype jsval =
    Undefined
  | Null
  | Bool bool
  | Number rat
  | String string
  | Array "jsval list"
  | Object "(string \<times> jsval) list"

text \<open>
  What a \<^verbatim>\<open>throw\<close> or a rejected promise carries. \<open>Error\<close>, \<open>TypeError\<close> and
  \<open>SyntaxError\<close> are instances of the JavaScript class Error (with their message);
  \<open>Value\<close> is any other thrown value, given by its string form.
\<close>

datatype thrown =
    Error string
  | TypeError string
  | SyntaxError string
  | Value string

fun instanceof_Error :: "thrown \<Rightarrow> bool" where
  "instanceof_Error (Value _) = False"
| "instanceof_Error _ = True"

fun String_of_thrown :: "thrown \<Rightarrow> string" where
  "String_of_thrown (Error m) = ''Error: '' @ m"
| "String_of_thrown (TypeError m) = ''TypeError: '' @ m"
| "String_of_thrown (SyntaxError m) = ''SyntaxError: '' @ m"
| "String_of_thrown (Value v) = v"

text \<open>JavaScript truthiness, as tested by \<^verbatim>\<open>if (x)\<close>, \<^verbatim>\<open>while (x)\<close>, \<^verbatim>\<open>x && y\<close>, \<^verbatim>\<open>x || y\<close>.\<close>

fun truthy :: "jsval \<Rightarrow> bool" where
  "truthy Undefined = False"
| "truthy Null = False"
| "truthy (Bool b) = b"
| "truthy (Number n) = (n \<noteq> 0)"
| "truthy (String s) = (s \<noteq> [])"
| "truthy (Array _) = True"
| "truthy (Object _) = True"

text \<open>\<^verbatim>\<open>a || b\<close>\<close>

definition or_js :: "jsval \<Rightarrow> jsval \<Rightarrow> jsval" where
  "or_js a b = (if truthy a then a else b)"

text \<open>
  \<^verbatim>\<open>v.name\<close>: reading a property of \<^verbatim>\<open>null\<close> or \<^verbatim>\<open>undefined\<close> throws a TypeError.
  The program reads only the names \<^verbatim>\<open>errors\<close>, \<^verbatim>\<open>detail\<close>, \<^verbatim>\<open>data\<close>, \<^verbatim>\<open>links\<close> and
  \<^verbatim>\<open>next\<close>, none of which is a built-in property of an array, string, number or boolean,
  so on those the result is \<^verbatim>\<open>undefined\<close>.
\<close>

fun own_prop :: "jsval \<Rightarrow> string \<Rightarrow> jsval" where
  "own_prop (Object kvs) name = (case map_of kvs name of Some v \<Rightarrow> v | None \<Rightarrow> Undefined)"
| "own_prop _ name = Undefined"

fun nullish :: "jsval \<Rightarrow> bool" where
  "nullish Undefined = True"
| "nullish Null = True"
| "nullish _ = False"

definition get_prop :: "jsval \<Rightarrow> string \<Rightarrow> thrown + jsval" where
  "get_prop v name =
     (if v = Undefined then
        Inl (TypeError (''Cannot read properties of undefined (reading '' @ [CHR 0x27] @ name @ [CHR 0x27] @ '')''))
      else if v = Null then
        Inl (TypeError (''Cannot read properties of null (reading '' @ [CHR 0x27] @ name @ [CHR 0x27] @ '')''))
      else Inr (own_prop v name))"

text \<open>\<^verbatim>\<open>v?.name\<close>\<close>

definition opt_prop :: "jsval \<Rightarrow> string \<Rightarrow> jsval" where
  "opt_prop v name = (if nullish v then Undefined else own_prop v name)"

text \<open>\<^verbatim>\<open>v[0]\<close> on a value that is neither null nor undefined.\<close>

fun index0 :: "jsval \<Rightarrow> jsval" where
  "index0 (Array (x # _)) = x"
| "index0 (String (c # _)) = String [c]"
| "index0 (Object kvs) = own_prop (Object kvs) ''0''"
| "index0 _ = Undefined"

text \<open>\<^verbatim>\<open>v?.[0]\<close>\<close>

definition opt_index0 :: "jsval \<Rightarrow> jsval" where
  "opt_index0 v = (if nullish v then Undefined else index0 v)"

text \<open>
  String conversion, as done by a template literal \<^verbatim>\<open>`${v}`\<close> and by \<^verbatim>\<open>fetch(v)\<close> on
  its argument. The decimal form of a number is the engine's; it is a parameter. An
  array is joined with commas, \<^verbatim>\<open>null\<close> and \<^verbatim>\<open>undefined\<close> elements giving the empty
  string. A parsed object converts through the inherited \<^verbatim>\<open>toString\<close> to
  \<^verbatim>\<open>[object Object]\<close>, unless it has an own property named \<^verbatim>\<open>toString\<close>: that value
  is not callable, the inherited \<^verbatim>\<open>valueOf\<close> returns the object itself (an own
  \<^verbatim>\<open>valueOf\<close> is not callable either), and the conversion throws a TypeError.
\<close>

fun join_comma :: "string list \<Rightarrow> string" where
  "join_comma [] = []"
| "join_comma [s] = s"
| "join_comma (s # t # ss) = s @ '','' @ join_comma (t # ss)"

text \<open>The results of converting the elements from left to right: the first throw wins.\<close>

fun first_thrown :: "(thrown + 'a) list \<Rightarrow> thrown + 'a list" where
  "first_thrown [] = Inr []"
| "first_thrown (Inl e # rs) = Inl e"
| "first_thrown (Inr x # rs) =
     (case first_thrown rs of Inl e \<Rightarrow> Inl e | Inr xs \<Rightarrow> Inr (x # xs))"

fun ToString :: "(rat \<Rightarrow> string) \<Rightarrow> jsval \<Rightarrow> thrown + string" where
  "ToString num Undefined = Inr ''undefined''"
| "ToString num Null = Inr ''null''"
| "ToString num (Bool b) = Inr (if b then ''true'' else ''false'')"
| "ToString num (Number n) = Inr (num n)"
| "ToString num (String s) = Inr s"
| "ToString num (Array xs) =
     (case first_thrown (map (\<lambda>x. if nullish x then Inr [] else ToString num x) xs) of
        Inl e \<Rightarrow> Inl e
      | Inr parts \<Rightarrow> Inr (join_comma parts))"
| "ToString num (Object kvs) =
     (case map_of kvs ''toString'' of
        Some _ \<Rightarrow> Inl (TypeError ''Cannot convert object to primitive value'')
      | None \<Rightarrow> Inr ''[object Object]'')"

text \<open>\<^verbatim>\<open>Array.isArray(v)\<close> and the elements spread by \<^verbatim>\<open>...v\<close>.\<close>

fun isArray :: "jsval \<Rightarrow> bool" where
  "isArray (Array _) = True"
| "isArray _ = False"

fun elements :: "jsval \<Rightarrow> jsval list" where
  "elements (Array xs) = xs"
| "elements _ = []"

section \<open>HTTP requests and responses, the host\<close>

type_synonym bytes = "char list"
type_synonym headers = "(string \<times> string) list"

text \<open>
  The argument of \<^verbatim>\<open>fetch\<close>. A URL built with \<^verbatim>\<open>new URL(base)\<close> and
  \<^verbatim>\<open>searchParams.append\<close> is kept as the base and the appended pairs, in order.
\<close>

record request =
  url :: string
  searchParams :: "(string \<times> string) list"
  method' :: string
  headers :: headers
  body :: "string option"

text \<open>
  A Response, by what the program observes of it: the status line and what each of the
  body readers settles to (each may reject).
\<close>

record response =
  status :: nat
  statusText :: string
  json :: "thrown + jsval"
  text' :: "thrown + string"
  arrayBuffer :: "thrown + bytes"

definition ok :: "response \<Rightarrow> bool" where
  "ok r = (200 \<le> status r \<and> status r \<le> 299)"

record JWTPayload =
  iss :: string
  iat :: int
  exp :: int
  aud :: string

text \<open>
  Everything outside the repository: the clock, the jsonwebtoken library, the network,
  zlib and the text decoders. The outside world \<open>'w\<close> is threaded through the calls
  that read or change it: \<^verbatim>\<open>Date.now()\<close> (milliseconds), \<^verbatim>\<open>jwt.sign\<close> (ES256
  signatures are randomised, and signing throws on a bad key) and \<^verbatim>\<open>fetch\<close>
  (which rejects on a transport failure).
\<close>

record 'w host =
  Date_now :: "'w \<Rightarrow> int \<times> 'w"
  jwt_sign :: "JWTPayload \<Rightarrow> string \<Rightarrow> string \<Rightarrow> string \<Rightarrow> 'w \<Rightarrow> (thrown + string) \<times> 'w"
  fetch :: "request \<Rightarrow> 'w \<Rightarrow> (thrown + response) \<times> 'w"
  JSON_stringify :: "jsval \<Rightarrow> thrown + string option"
  gunzipSync :: "bytes \<Rightarrow> thrown + bytes"
  Buffer_toString_utf8 :: "bytes \<Rightarrow> string"
  TextDecoder_decode :: "bytes \<Rightarrow> string"
  Number_toString :: "rat \<Rightarrow> string"

section \<open>auth.ts: the token issuer\<close>

definition AUDIENCE :: string where
  "AUDIENCE = ''appstoreconnect-v1''"

definition ALGORITHM :: string where
  "ALGORITHM = ''ES256''"

record AppStoreConnectConfig =
  issuerId :: string
  keyId :: string
  privateKey :: string
  vendorNumber :: "string option"

record AppStoreConnectAuth =
  config :: AppStoreConnectConfig
  cachedToken :: "string option"
  tokenExpiry :: int

text \<open>The constructor: \<^verbatim>\<open>cachedToken = null\<close>, \<^verbatim>\<open>tokenExpiry = 0\<close>.\<close>

definition new_AppStoreConnectAuth :: "AppStoreConnectConfig \<Rightarrow> AppStoreConnectAuth" where
  "new_AppStoreConnectAuth c = \<lparr>config = c, cachedToken = None, tokenExpiry = 0\<rparr>"

text \<open>
  The calls made to the outside that the claims speak about, in the order made.
\<close>

datatype call = Signed JWTPayload string string string | Fetched request

text \<open>
  The state every method runs in: the auth object's fields, the outside world, and the
  log of outside calls made so far.
\<close>

record 'w state =
  auth :: AppStoreConnectAuth
  world :: 'w
  calls :: "call list"

text \<open>
  \<^verbatim>\<open>this.cachedToken\<close> used as a condition: \<^verbatim>\<open>null\<close> and the empty string are falsy.
\<close>

fun truthy_token :: "string option \<Rightarrow> bool" where
  "truthy_token None = False"
| "truthy_token (Some t) = (t \<noteq> [])"

text \<open>
  \<^verbatim>\<open>generateToken()\<close>. \<^verbatim>\<open>Math.floor(Date.now() / 1000)\<close> is \<open>div 1000\<close> on the
  integer millisecond reading. The call to \<^verbatim>\<open>jwt.sign\<close> is logged with its payload,
  key, algorithm and key id; when it throws, the cache is left as it was.
\<close>

definition generateToken :: "'w host \<Rightarrow> 'w state \<Rightarrow> (thrown + string) \<times> 'w state" where
  "generateToken H s =
     (let ms = fst (Date_now H (world s));
          s1 = s\<lparr>world := snd (Date_now H (world s))\<rparr>;
          now = ms div 1000
      in if truthy_token (cachedToken (auth s)) \<and> tokenExpiry (auth s) > now + 60
         then (Inr (the (cachedToken (auth s))), s1)
         else
           let payload = \<lparr>iss = issuerId (config (auth s)), iat = now,
                           exp = now + 20 * 60, aud = AUDIENCE\<rparr>;
               signed = jwt_sign H payload (privateKey (config (auth s))) ALGORITHM
                          (keyId (config (auth s))) (world s1);
               s2 = s1\<lparr>world := snd signed,
                        calls := calls s1 @ [Signed payload (privateKey (config (auth s)))
                                               ALGORITHM (keyId (config (auth s)))]\<rparr>
           in case fst signed of
                Inl e \<Rightarrow> (Inl e, s2)
              | Inr token \<Rightarrow>
                  (Inr token,
                   s2\<lparr>auth := (auth s2)\<lparr>cachedToken := Some token,
                                          tokenExpiry := exp payload\<rparr>\<rparr>))"

text \<open>\<^verbatim>\<open>getAuthHeaders()\<close>\<close>

definition getAuthHeaders :: "'w host \<Rightarrow> 'w state \<Rightarrow> (thrown + headers) \<times> 'w state" where
  "getAuthHeaders H s =
     (case generateToken H s of
        (Inl e, s') \<Rightarrow> (Inl e, s')
      | (Inr token, s') \<Rightarrow>
          (Inr [(''Authorization'', ''Bearer '' @ token),
                (''Content-Type'', ''application/json'')], s'))"

section \<open>client.ts: the request engine\<close>

definition BASE_URL :: string where
  "BASE_URL = ''https://api.appstoreconnect.apple.com/v1''"

definition SALES_REPORTS_URL :: string where
  "SALES_REPORTS_URL = ''https://api.appstoreconnect.apple.com/v1/salesReports''"

text \<open>\<^verbatim>\<open>await fetch(...)\<close>: the call goes to the host and is logged.\<close>

definition await_fetch :: "'w host \<Rightarrow> request \<Rightarrow> 'w state \<Rightarrow> (thrown + response) \<times> 'w state" where
  "await_fetch H req s =
     (fst (fetch H req (world s)),
      s\<lparr>world := snd (fetch H req (world s)), calls := calls s @ [Fetched req]\<rparr>)"

text \<open>
  The handling of a response that is not ok, written out identically in \<^verbatim>\<open>get\<close>,
  \<^verbatim>\<open>post\<close>, \<^verbatim>\<open>patch\<close>, \<^verbatim>\<open>delete\<close> and the report methods:
  \<^verbatim>\<open>const error = await response.json();
  throw new Error(`API Error: ${error.errors?.[0]?.detail || response.statusText}`)\<close>.
  The result is the value thrown: \<^verbatim>\<open>response.json()\<close> may reject,
  \<^verbatim>\<open>error.errors\<close> throws when the body is the JSON \<^verbatim>\<open>null\<close>, and the template
  literal throws when the detail does not convert to a string.
\<close>

definition api_error :: "'w host \<Rightarrow> response \<Rightarrow> thrown" where
  "api_error H response =
     (case json response of
        Inl e \<Rightarrow> e
      | Inr error \<Rightarrow>
          (case get_prop error ''errors'' of
             Inl e \<Rightarrow> e
           | Inr errors \<Rightarrow>
               (case ToString (Number_toString H)
                       (or_js (opt_prop (opt_index0 errors) ''detail'')
                              (String (statusText response))) of
                  Inl e \<Rightarrow> e
                | Inr message \<Rightarrow> Error (''API Error: '' @ message))))"

text \<open>
  \<^verbatim>\<open>get(endpoint, params)\<close>. \<open>params\<close> is the optional record, as the list of its
  entries. The headers are computed (and a token possibly minted) before the request
  is sent.
\<close>

definition get ::
  "'w host \<Rightarrow> string \<Rightarrow> (string \<times> string) list option \<Rightarrow> 'w state \<Rightarrow> (thrown + jsval) \<times> 'w state" where
  "get H endpoint params s =
     (case getAuthHeaders H s of
        (Inl e, s1) \<Rightarrow> (Inl e, s1)
      | (Inr hs, s1) \<Rightarrow>
          (case await_fetch H
                  \<lparr>url = BASE_URL @ endpoint,
                   searchParams = (case params of None \<Rightarrow> [] | Some ps \<Rightarrow> ps),
                   method' = ''GET'', headers = hs, body = None\<rparr> s1 of
             (Inl e, s2) \<Rightarrow> (Inl e, s2)
           | (Inr response, s2) \<Rightarrow>
               if \<not> ok response then (Inl (api_error H response), s2)
               else (json response, s2)))"

text \<open>\<^verbatim>\<open>post\<close> and \<^verbatim>\<open>patch\<close> differ in the method only.\<close>

definition send_body ::
  "string \<Rightarrow> 'w host \<Rightarrow> string \<Rightarrow> jsval \<Rightarrow> 'w state \<Rightarrow> (thrown + jsval) \<times> 'w state" where
  "send_body verb H endpoint payload s =
     (case getAuthHeaders H s of
        (Inl e, s1) \<Rightarrow> (Inl e, s1)
      | (Inr hs, s1) \<Rightarrow>
          (case JSON_stringify H payload of
             Inl e \<Rightarrow> (Inl e, s1)
           | Inr text \<Rightarrow>
               (case await_fetch H
                       \<lparr>url = BASE_URL @ endpoint, searchParams = [],
                        method' = verb, headers = hs, body = text\<rparr> s1 of
                  (Inl e, s2) \<Rightarrow> (Inl e, s2)
                | (Inr response, s2) \<Rightarrow>
                    if \<not> ok response then (Inl (api_error H response), s2)
                    else (json response, s2))))"

definition post :: "'w host \<Rightarrow> string \<Rightarrow> jsval \<Rightarrow> 'w state \<Rightarrow> (thrown + jsval) \<times> 'w state" where
  "post = send_body ''POST''"

definition patch :: "'w host \<Rightarrow> string \<Rightarrow> jsval \<Rightarrow> 'w state \<Rightarrow> (thrown + jsval) \<times> 'w state" where
  "patch = send_body ''PATCH''"

definition delete :: "'w host \<Rightarrow> string \<Rightarrow> 'w state \<Rightarrow> (thrown + unit) \<times> 'w state" where
  "delete H endpoint s =
     (case getAuthHeaders H s of
        (Inl e, s1) \<Rightarrow> (Inl e, s1)
      | (Inr hs, s1) \<Rightarrow>
          (case await_fetch H
                  \<lparr>url = BASE_URL @ endpoint, searchParams = [],
                   method' = ''DELETE'', headers = hs, body = None\<rparr> s1 of
             (Inl e, s2) \<Rightarrow> (Inl e, s2)
           | (Inr response, s2) \<Rightarrow>
               if \<not> ok response then (Inl (api_error H response), s2)
               else (Inr (), s2)))"

subsection \<open>Sales reports\<close>

record SalesReportParams =
  frequency :: string
  reportDate :: string
  reportSubType :: string
  reportType :: string
  vendorNumber :: string
  version :: "string option"

definition sales_query :: "SalesReportParams \<Rightarrow> (string \<times> string) list" where
  "sales_query params =
     [(''filter[frequency]'', frequency params),
      (''filter[reportDate]'', reportDate params),
      (''filter[reportSubType]'', reportSubType params),
      (''filter[reportType]'', reportType params),
      (''filter[vendorNumber]'', vendorNumber params)] @
     (case version params of
        Some v \<Rightarrow> if v \<noteq> [] then [(''filter[version]'', v)] else []
      | None \<Rightarrow> [])"

definition getSalesReport ::
  "'w host \<Rightarrow> SalesReportParams \<Rightarrow> 'w state \<Rightarrow> (thrown + string) \<times> 'w state" where
  "getSalesReport H params s =
     (case getAuthHeaders H s of
        (Inl e, s1) \<Rightarrow> (Inl e, s1)
      | (Inr hs, s1) \<Rightarrow>
          (case await_fetch H
                  \<lparr>url = SALES_REPORTS_URL, searchParams = sales_query params,
                   method' = ''GET'', headers = hs @ [(''Accept-Encoding'', ''gzip'')],
                   body = None\<rparr> s1 of
             (Inl e, s2) \<Rightarrow> (Inl e, s2)
           | (Inr response, s2) \<Rightarrow>
               if \<not> ok response then
                 if status response = 404 then
                   (Inl (Error ''No report available for the specified date. Reports may take up to 24 hours to be available.''), s2)
                 else (Inl (api_error H response), s2)
               else
                 (case arrayBuffer response of
                    Inl e \<Rightarrow> (Inl e, s2)
                  | Inr buffer \<Rightarrow>
                      (case gunzipSync H buffer of
                         Inl e \<Rightarrow> (Inl e, s2)
                       | Inr decompressed \<Rightarrow> (Inr (Buffer_toString_utf8 H decompressed), s2)))))"

subsection \<open>The pagination walker\<close>

text \<open>
  The \<^verbatim>\<open>while (nextUrl)\<close> loop of \<^verbatim>\<open>getAll\<close>. Nothing bounds the number of pages,
  so the loop is a partial function: \<open>None\<close> is a walk that never ends. A response that
  is not ok ends the loop with what has been collected; a rejected \<^verbatim>\<open>fetch\<close>, a token
  that cannot be signed, a body that is not JSON and a page without \<^verbatim>\<open>links\<close> throw.
  \<^verbatim>\<open>fetch(nextUrl)\<close> converts its argument to a string before anything is sent; when
  that conversion throws, \<^verbatim>\<open>fetch\<close> rejects and no request is made.
\<close>

partial_function (option) getAll_loop ::
  "'w host \<Rightarrow> jsval \<Rightarrow> jsval list \<Rightarrow> 'w state \<Rightarrow> ((thrown + jsval list) \<times> 'w state) option" where
  "getAll_loop H nextUrl results s =
     (if \<not> truthy nextUrl then Some (Inr results, s)
      else
        (case getAuthHeaders H s of
           (Inl e, s1) \<Rightarrow> Some (Inl e, s1)
         | (Inr hs, s1) \<Rightarrow>
             (case ToString (Number_toString H) nextUrl of
                Inl e \<Rightarrow> Some (Inl e, s1)
              | Inr href \<Rightarrow>
                  (case await_fetch H
                          \<lparr>url = href, searchParams = [],
                           method' = ''GET'', headers = hs, body = None\<rparr> s1 of
                     (Inl e, s2) \<Rightarrow> Some (Inl e, s2)
                   | (Inr response, s2) \<Rightarrow>
                       if \<not> ok response then Some (Inr results, s2)
                       else
                         (case json response of
                            Inl e \<Rightarrow> Some (Inl e, s2)
                          | Inr data \<Rightarrow>
                              (case get_prop data ''data'' of
                                 Inl e \<Rightarrow> Some (Inl e, s2)
                               | Inr d \<Rightarrow>
                                   (case get_prop (own_prop data ''links'') ''next'' of
                                      Inl e \<Rightarrow> Some (Inl e, s2)
                                    | Inr next \<Rightarrow>
                                        getAll_loop H next
                                          (results @ (if isArray d then elements d else []))
                                          s2)))))))"

definition getAll ::
  "'w host \<Rightarrow> string \<Rightarrow> (string \<times> string) list option \<Rightarrow> 'w state \<Rightarrow>
     ((thrown + jsval list) \<times> 'w state) option" where
  "getAll H endpoint params s =
     (case get H endpoint params s of
        (Inl e, s1) \<Rightarrow> Some (Inl e, s1)
      | (Inr firstResponse, s1) \<Rightarrow>
          (case get_prop firstResponse ''data'' of
             Inl e \<Rightarrow> Some (Inl e, s1)
           | Inr d \<Rightarrow>
               (case get_prop (own_prop firstResponse ''links'') ''next'' of
                  Inl e \<Rightarrow> Some (Inl e, s1)
                | Inr next \<Rightarrow>
                    getAll_loop H next (if isArray d then elements d else []) s1)))"

subsection \<open>Analytics segments\<close>

text \<open>\<^verbatim>\<open>s.includes(pattern)\<close>: the pattern occurs somewhere in the string.\<close>

fun startsWith :: "string \<Rightarrow> string \<Rightarrow> bool" where
  "startsWith s [] = True"
| "startsWith [] (p # ps) = False"
| "startsWith (c # cs) (p # ps) = (c = p \<and> startsWith cs ps)"

fun includes_str :: "string \<Rightarrow> string \<Rightarrow> bool" where
  "includes_str [] pattern = (pattern = [])"
| "includes_str (c # cs) pattern = (startsWith (c # cs) pattern \<or> includes_str cs pattern)"

text \<open>The decimal form of a status code, as a template literal prints it.\<close>

function decimal :: "nat \<Rightarrow> string" where
  "decimal n =
     (if n < 10 then [''0123456789'' ! n]
      else decimal (n div 10) @ [''0123456789'' ! (n mod 10)])"
  by pat_completeness auto
termination
  by (relation "measure id") auto

text \<open>
  The outer \<^verbatim>\<open>catch (error)\<close> of \<^verbatim>\<open>downloadAnalyticsSegment\<close>: an Error is thrown
  again as it is, anything else is wrapped.
\<close>

definition rethrow :: "thrown \<Rightarrow> thrown" where
  "rethrow e =
     (if instanceof_Error e then e
      else Error (''Failed to download analytics segment: '' @ String_of_thrown e))"

definition downloadAnalyticsSegment ::
  "'w host \<Rightarrow> string \<Rightarrow> 'w state \<Rightarrow> (thrown + string) \<times> 'w state" where
  "downloadAnalyticsSegment H segmentUrl s =
     (let isS3Url = (includes_str segmentUrl ''s3.'' \<or> includes_str segmentUrl ''amazonaws.com'')
      in case (if isS3Url then (Inr [], s)
               else (case getAuthHeaders H s of
                       (Inl e, s1) \<Rightarrow> (Inl e, s1)
                     | (Inr hs, s1) \<Rightarrow> (Inr (hs @ [(''Accept-Encoding'', ''gzip'')]), s1))) of
           (Inl e, s1) \<Rightarrow> (Inl (rethrow e), s1)
         | (Inr hs, s1) \<Rightarrow>
             (case await_fetch H
                     \<lparr>url = segmentUrl, searchParams = [], method' = ''GET'',
                      headers = hs, body = None\<rparr> s1 of
                (Inl e, s2) \<Rightarrow> (Inl (rethrow e), s2)
              | (Inr response, s2) \<Rightarrow>
                  if \<not> ok response then
                    (let errorText = (case text' response of
                                        Inl _ \<Rightarrow> statusText response
                                      | Inr t \<Rightarrow> t)
                     in (Inl (rethrow (Error (''Failed to download analytics segment: '' @
                               decimal (status response) @ '' '' @ statusText response @
                               '' - '' @ take 200 errorText))), s2))
                  else
                    (case arrayBuffer response of
                       Inl e \<Rightarrow> (Inl (rethrow e), s2)
                     | Inr buffer \<Rightarrow>
                         (case gunzipSync H buffer of
                            Inr decompressed \<Rightarrow> (Inr (Buffer_toString_utf8 H decompressed), s2)
                          | Inl decompressError \<Rightarrow> (Inr (TextDecoder_decode H buffer), s2)))))"

section \<open>tools/reviews.ts: review analysis\<close>

text \<open>
  A customer review, with its \<^verbatim>\<open>attributes\<close> flattened. A rating is the store's whole
  number of stars; nothing here assumes it lies between 1 and 5.
\<close>

record CustomerReview =
  id' :: string
  rating :: int
  title :: "string option"
  body' :: "string option"
  reviewerNickname :: string
  createdDate :: string
  territory :: string

datatype trend = Improving | Declining | Stable

text \<open>
  The arithmetic on IEEE doubles and the date parser are the engine's, and are
  parameters: \<open>divide_num a n\<close> is \<^verbatim>\<open>a / n\<close>, \<open>toFixed2 x\<close> is
  \<^verbatim>\<open>Number(x.toFixed(2))\<close>, \<open>exceeds_03 x y\<close> is \<^verbatim>\<open>x - y > 0.3\<close>, \<open>zero_num\<close> is
  \<^verbatim>\<open>0\<close>, and \<open>Date_getTime d\<close> is \<^verbatim>\<open>new Date(d).getTime()\<close>. Sums of ratings are
  whole numbers and exact.
\<close>

record 'f engine =
  divide_num :: "int \<Rightarrow> nat \<Rightarrow> 'f"
  toFixed2 :: "'f \<Rightarrow> 'f"
  exceeds_03 :: "'f \<Rightarrow> 'f \<Rightarrow> bool"
  zero_num :: 'f
  Date_getTime :: "string \<Rightarrow> int"

record 'f analysis =
  averageRating :: 'f
  ratingDistribution :: "(int \<times> nat) list"
  totalReviews :: nat
  recentTrend :: trend
  territorySummary :: "(string \<times> nat \<times> 'f) list"

text \<open>
  \<^verbatim>\<open>ratingDistribution[rating] = (ratingDistribution[rating] || 0) + 1\<close> on an object
  kept as the list of its entries: an existing entry is incremented where it stands, a
  new key is added. (The order in which JavaScript enumerates the keys is not modelled.)
\<close>

fun count_rating :: "int \<Rightarrow> (int \<times> nat) list \<Rightarrow> (int \<times> nat) list" where
  "count_rating r [] = [(r, 1)]"
| "count_rating r ((k, n) # rest) =
     (if k = r then (k, n + 1) # rest else (k, n) # count_rating r rest)"

text \<open>
  The territory tally: \<^verbatim>\<open>count++\<close> and \<^verbatim>\<open>totalRating += rating\<close>, on an entry created
  with zeros when the territory is first seen.
\<close>

fun count_territory :: "string \<Rightarrow> int \<Rightarrow> (string \<times> nat \<times> int) list \<Rightarrow> (string \<times> nat \<times> int) list" where
  "count_territory t r [] = [(t, 1, r)]"
| "count_territory t r ((k, c, totalRating) # rest) =
     (if k = t then (k, c + 1, totalRating + r) # rest
      else (k, c, totalRating) # count_territory t r rest)"

text \<open>The body of the \<^verbatim>\<open>for (const review of reviews)\<close> loop, on the three accumulators.\<close>

definition tally ::
  "int \<times> (int \<times> nat) list \<times> (string \<times> nat \<times> int) list \<Rightarrow> CustomerReview \<Rightarrow>
   int \<times> (int \<times> nat) list \<times> (string \<times> nat \<times> int) list" where
  "tally acc review =
     (case acc of (totalRating, distribution, territories) \<Rightarrow>
        (totalRating + rating review,
         count_rating (rating review) distribution,
         count_territory (territory review) (rating review) territories))"

definition half_average :: "'f engine \<Rightarrow> CustomerReview list \<Rightarrow> 'f" where
  "half_average E half =
     (if length half > 0 then divide_num E (foldl (\<lambda>sum r. sum + rating r) 0 half) (length half)
      else zero_num E)"

definition analyzeReviewSentiment :: "'f engine \<Rightarrow> CustomerReview list \<Rightarrow> 'f analysis" where
  "analyzeReviewSentiment E reviews =
     (if length reviews = 0 then
        \<lparr>averageRating = zero_num E,
         ratingDistribution = [(1, 0), (2, 0), (3, 0), (4, 0), (5, 0)],
         totalReviews = 0,
         recentTrend = Stable,
         territorySummary = []\<rparr>
      else
        (case foldl tally (0, [(1, 0), (2, 0), (3, 0), (4, 0), (5, 0)], []) reviews of
           (totalRating, distribution, territories) \<Rightarrow>
             let territoryResult =
                   map (\<lambda>(t, c, total_t). (t, c, toFixed2 E (divide_num E total_t c))) territories;
                 sortedReviews = sort_key (\<lambda>r. Date_getTime E (createdDate r)) reviews;
                 midpoint = length sortedReviews div 2;
                 firstHalfAvg = half_average E (take midpoint sortedReviews);
                 secondHalfAvg = half_average E (drop midpoint sortedReviews)
             in \<lparr>averageRating = toFixed2 E (divide_num E totalRating (length reviews)),
                 ratingDistribution = distribution,
                 totalReviews = length reviews,
                 recentTrend =
                   (if exceeds_03 E secondHalfAvg firstHalfAvg then Improving
                    else if exceeds_03 E firstHalfAvg secondHalfAvg then Declining
                    else Stable),
                 territorySummary = territoryResult\<rparr>))"

section \<open>Vocabulary of the properties\<close>

subsection \<open>The token issuer\<close>

text \<open>
  The second of the clock that a call to \<open>generateToken\<close> in state \<open>s\<close> reads, the
  test it makes on the cache, and the payload and \<^verbatim>\<open>jwt.sign\<close> call of its minting branch.
\<close>

definition now_of :: "'w host \<Rightarrow> 'w state \<Rightarrow> int" where
  "now_of H s = fst (Date_now H (world s)) div 1000"

definition cache_hit :: "'w host \<Rightarrow> 'w state \<Rightarrow> bool" where
  "cache_hit H s = (truthy_token (cachedToken (auth s)) \<and> tokenExpiry (auth s) > now_of H s + 60)"

definition mint_payload :: "'w host \<Rightarrow> 'w state \<Rightarrow> JWTPayload" where
  "mint_payload H s = \<lparr>iss = issuerId (config (auth s)), iat = now_of H s,
                           exp = now_of H s + 1200, aud = AUDIENCE\<rparr>"

definition mint_sign :: "'w host \<Rightarrow> 'w state \<Rightarrow> (thrown + string) \<times> 'w" where
  "mint_sign H s = jwt_sign H (mint_payload H s) (privateKey (config (auth s))) ALGORITHM
                          (keyId (config (auth s))) (snd (Date_now H (world s)))"

definition mint_call :: "'w host \<Rightarrow> 'w state \<Rightarrow> call" where
  "mint_call H s = Signed (mint_payload H s) (privateKey (config (auth s))) ALGORITHM
                          (keyId (config (auth s)))"

text \<open>
  The states the program can be in: the auth object is constructed with an empty cache,
  only \<open>generateToken\<close> writes its fields, and every other method changes the outside
  world and the log only.
\<close>

inductive reachable :: "'w host \<Rightarrow> 'w state \<Rightarrow> bool" for H :: "'w host" where
  constructed: "reachable H \<lparr>auth = new_AppStoreConnectAuth c, world = w, calls = []\<rparr>"
| token: "reachable H s \<Longrightarrow> reachable H (snd (generateToken H s))"
| outside: "reachable H s \<Longrightarrow> reachable H (s\<lparr>world := w, calls := l\<rparr>)"

text \<open>
  \<^verbatim>\<open>jwt.sign\<close> returns a compact JWS (three base64url parts joined by dots), never the
  empty string.
\<close>

definition signs_nonempty :: "'w host \<Rightarrow> bool" where
  "signs_nonempty H = (\<forall>p k a i w. fst (jwt_sign H p k a i w) \<noteq> Inr [])"

subsection \<open>A host with a settable clock\<close>

text \<open>
  The world is the clock, in milliseconds; the signer refuses an empty key as
  jsonwebtoken does, and the network is down.
\<close>

definition clock_host :: "int host" where
  "clock_host =
     \<lparr>Date_now = (\<lambda>w. (w, w)),
      jwt_sign = (\<lambda>p k a i w.
         (if k = [] then Inl (Error ''secretOrPrivateKey must have a value'')
          else Inr (''eyJ.'' @ iss p @ ''.'' @ i), w)),
      fetch = (\<lambda>r w. (Inl (TypeError ''fetch failed''), w)),
      JSON_stringify = (\<lambda>v. Inr None),
      gunzipSync = (\<lambda>b. Inl (Error ''incorrect header check'')),
      Buffer_toString_utf8 = (\<lambda>b. b),
      TextDecoder_decode = (\<lambda>b. b),
      Number_toString = (\<lambda>n. ''0'')\<rparr>"

definition team_config :: AppStoreConnectConfig where
  "team_config = \<lparr>issuerId = ''team'', keyId = ''K1'', privateKey = ''PEM'',
      AppStoreConnectConfig.vendorNumber = None\<rparr>"

definition fresh_at :: "int \<Rightarrow> int state" where
  "fresh_at ms = \<lparr>auth = new_AppStoreConnectAuth team_config, world = ms, calls = []\<rparr>"

definition cached_at :: "int \<Rightarrow> int \<Rightarrow> int state" where
  "cached_at minted ms = (snd (generateToken clock_host (fresh_at minted)))\<lparr>world := ms, calls := []\<rparr>"

subsection \<open>The pagination walker\<close>

text \<open>
  The request the loop makes for one page (headers first, then \<^verbatim>\<open>fetch\<close>), and the
  parts of a page the walker reads. A page is an envelope when reading \<^verbatim>\<open>.data\<close> and
  \<^verbatim>\<open>.links.next\<close> of it does not throw.
\<close>

definition page_request :: "'w host \<Rightarrow> jsval \<Rightarrow> 'w state \<Rightarrow> (thrown + response) \<times> 'w state" where
  "page_request H nextUrl s =
     (case getAuthHeaders H s of
        (Inl e, s1) \<Rightarrow> (Inl e, s1)
      | (Inr hs, s1) \<Rightarrow>
          (case ToString (Number_toString H) nextUrl of
             Inl e \<Rightarrow> (Inl e, s1)
           | Inr href \<Rightarrow>
               await_fetch H \<lparr>url = href, searchParams = [],
                              method' = ''GET'', headers = hs, body = None\<rparr> s1))"

definition envelope :: "jsval \<Rightarrow> bool" where
  "envelope page = (\<not> nullish page \<and> \<not> nullish (own_prop page ''links''))"

definition page_data :: "jsval \<Rightarrow> jsval" where
  "page_data page = own_prop page ''data''"

definition page_items :: "jsval \<Rightarrow> jsval list" where
  "page_items page = (if isArray (page_data page) then elements (page_data page) else [])"

definition page_next :: "jsval \<Rightarrow> jsval" where
  "page_next page = own_prop (own_prop page ''links'') ''next''"

text \<open>
  A walk from a next link: the page requests succeed one after the other and return
  \<open>pages\<close>, each page but the last linking to the next. It ends either at a page with
  no next link, or at a request that is answered with a status outside 200..299.
\<close>

datatype ending = NoNextLink | NotOk

fun walk :: "'w host \<Rightarrow> ending \<Rightarrow> jsval \<Rightarrow> 'w state \<Rightarrow> jsval list \<Rightarrow> bool" where
  "walk H fin nextUrl s [] =
     (case fin of
        NoNextLink \<Rightarrow> \<not> truthy nextUrl
      | NotOk \<Rightarrow>
          truthy nextUrl \<and>
          (case page_request H nextUrl s of
             (Inr response, s1) \<Rightarrow> \<not> ok response
           | (Inl e, s1) \<Rightarrow> False))"
| "walk H fin nextUrl s (page # pages) =
     (truthy nextUrl \<and>
      (case page_request H nextUrl s of
         (Inr response, s1) \<Rightarrow>
           ok response \<and> json response = Inr page \<and> envelope page \<and>
           walk H fin (page_next page) s1 pages
       | (Inl e, s1) \<Rightarrow> False))"

subsection \<open>A host with a scripted server\<close>

text \<open>
  The clock stands still, the signer always succeeds, and \<^verbatim>\<open>fetch\<close> answers from a
  table of URLs, rejecting any other URL; the world counts the requests. Gzip is mocked
  by its two magic bytes in front of the payload.
\<close>

definition mock_host :: "(request \<Rightarrow> thrown + response) \<Rightarrow> nat host" where
  "mock_host server =
     \<lparr>Date_now = (\<lambda>w. (1700000000000, w)),
      jwt_sign = (\<lambda>p k a i w. (Inr ''eyJ.mock.sig'', w)),
      fetch = (\<lambda>req w. (server req, Suc w)),
      JSON_stringify = (\<lambda>v. Inr None),
      gunzipSync = (\<lambda>b. case b of
                      c1 # c2 # rest \<Rightarrow>
                        if c1 = CHR 0x1F \<and> c2 = CHR 0x8B then Inr rest
                        else Inl (Error ''incorrect header check'')
                    | _ \<Rightarrow> Inl (Error ''unexpected end of file'')),
      Buffer_toString_utf8 = (\<lambda>b. b),
      TextDecoder_decode = (\<lambda>b. b),
      Number_toString = (\<lambda>n. ''0'')\<rparr>"

definition mock_start :: "nat state" where
  "mock_start = \<lparr>auth = new_AppStoreConnectAuth team_config, world = 0, calls = []\<rparr>"

definition json_response :: "nat \<Rightarrow> string \<Rightarrow> jsval \<Rightarrow> response" where
  "json_response code reason v =
     \<lparr>status = code, statusText = reason, json = Inr v,
      text' = Inl (TypeError ''Body is unusable''),
      arrayBuffer = Inl (TypeError ''Body is unusable'')\<rparr>"

definition list_page :: "rat list \<Rightarrow> string option \<Rightarrow> jsval" where
  "list_page items next =
     Object [(''data'', Array (map Number items)),
             (''links'', Object ((''self'', String ''self'') #
                (case next of None \<Rightarrow> [] | Some u \<Rightarrow> [(''next'', String u)])))]"

definition serve :: "(string \<times> (thrown + response)) list \<Rightarrow> request \<Rightarrow> thrown + response" where
  "serve routes req =
     (case map_of routes (url req) of
        Some r \<Rightarrow> r
      | None \<Rightarrow> Inl (TypeError ''fetch failed''))"

definition server_error :: response where
  "server_error =
     json_response 500 ''Internal Server Error''
       (Object [(''errors'', Array [Object [(''status'', String ''500''),
                                            (''detail'', String ''An unexpected error occurred.'')]])])"

definition apps_url :: string where
  "apps_url = BASE_URL @ ''/apps''"

definition three_pages :: "(string \<times> (thrown + response)) list" where
  "three_pages =
     [(apps_url,
       Inr (json_response 200 ''OK'' (list_page [1, 2, 3, 4, 5, 6, 7, 8, 9, 10] (Some ''https://next/2'')))),
      (''https://next/2'',
       Inr (json_response 200 ''OK'' (list_page [11, 12, 13, 14, 15, 16, 17, 18, 19, 20] (Some ''https://next/3'')))),
      (''https://next/3'',
       Inr (json_response 200 ''OK'' (list_page [21, 22, 23, 24, 25] None)))]"

definition second_page_refused :: "(string \<times> (thrown + response)) list" where
  "second_page_refused =
     [(apps_url,
       Inr (json_response 200 ''OK'' (list_page [1, 2, 3, 4, 5, 6, 7, 8, 9, 10] (Some ''https://next/2'')))),
      (''https://next/2'', Inr server_error)]"

definition first_page_refused :: "(string \<times> (thrown + response)) list" where
  "first_page_refused = [(apps_url, Inr server_error)]"

definition second_page_unreachable :: "(string \<times> (thrown + response)) list" where
  "second_page_unreachable =
     [(apps_url,
       Inr (json_response 200 ''OK'' (list_page [1, 2, 3, 4, 5, 6, 7, 8, 9, 10] (Some ''https://next/2''))))]"

definition single_resource :: jsval where
  "single_resource = Object [(''type'', String ''apps''), (''id'', String ''123'')]"

definition one_app :: "(string \<times> (thrown + response)) list" where
  "one_app =
     [(apps_url,
       Inr (json_response 200 ''OK''
              (Object [(''data'', single_resource),
                       (''links'', Object [(''self'', String ''self'')])])))]"

definition app_then_list :: "(string \<times> (thrown + response)) list" where
  "app_then_list =
     [(apps_url,
       Inr (json_response 200 ''OK''
              (Object [(''data'', single_resource),
                       (''links'', Object [(''self'', String ''self''),
                                           (''next'', String ''https://next/2'')])]))),
      (''https://next/2'', Inr (json_response 200 ''OK'' (list_page [7, 8] None)))]"

subsection \<open>The request engine and the downloaders\<close>

text \<open>
  The request each method sends (its headers, then \<^verbatim>\<open>fetch\<close>), apart from what it does
  with the response; the test \<^verbatim>\<open>isS3Url\<close> of \<^verbatim>\<open>downloadAnalyticsSegment\<close>; and the
  error of \<^verbatim>\<open>getSalesReport\<close> for a report that is not there yet.
\<close>

definition get_request ::
  "'w host \<Rightarrow> string \<Rightarrow> (string \<times> string) list option \<Rightarrow> 'w state \<Rightarrow> (thrown + response) \<times> 'w state" where
  "get_request H endpoint params s =
     (case getAuthHeaders H s of
        (Inl e, s1) \<Rightarrow> (Inl e, s1)
      | (Inr hs, s1) \<Rightarrow>
          await_fetch H
            \<lparr>url = BASE_URL @ endpoint,
             searchParams = (case params of None \<Rightarrow> [] | Some ps \<Rightarrow> ps),
             method' = ''GET'', headers = hs, body = None\<rparr> s1)"

definition sales_request ::
  "'w host \<Rightarrow> SalesReportParams \<Rightarrow> 'w state \<Rightarrow> (thrown + response) \<times> 'w state" where
  "sales_request H params s =
     (case getAuthHeaders H s of
        (Inl e, s1) \<Rightarrow> (Inl e, s1)
      | (Inr hs, s1) \<Rightarrow>
          await_fetch H
            \<lparr>url = SALES_REPORTS_URL, searchParams = sales_query params,
             method' = ''GET'', headers = hs @ [(''Accept-Encoding'', ''gzip'')],
             body = None\<rparr> s1)"

definition isS3Url :: "string \<Rightarrow> bool" where
  "isS3Url segmentUrl = (includes_str segmentUrl ''s3.'' \<or> includes_str segmentUrl ''amazonaws.com'')"

definition segment_request ::
  "'w host \<Rightarrow> string \<Rightarrow> 'w state \<Rightarrow> (thrown + response) \<times> 'w state" where
  "segment_request H segmentUrl s =
     (if isS3Url segmentUrl then
        await_fetch H \<lparr>url = segmentUrl, searchParams = [], method' = ''GET'',
                       headers = [], body = None\<rparr> s
      else
        (case getAuthHeaders H s of
           (Inl e, s1) \<Rightarrow> (Inl e, s1)
         | (Inr hs, s1) \<Rightarrow>
             await_fetch H \<lparr>url = segmentUrl, searchParams = [], method' = ''GET'',
                            headers = hs @ [(''Accept-Encoding'', ''gzip'')], body = None\<rparr> s1))"

definition not_yet_available :: thrown where
  "not_yet_available =
     Error ''No report available for the specified date. Reports may take up to 24 hours to be available.''"

subsection \<open>Scripted responses\<close>

text \<open>
  A body that is not JSON (\<^verbatim>\<open>response.json()\<close> rejects with a SyntaxError), error
  envelopes, a sales query, and two segment URLs: one at a storage host with a plain
  payload, one at the API origin with a payload under the mocked gzip header.
\<close>

definition raw_response :: "nat \<Rightarrow> string \<Rightarrow> bytes \<Rightarrow> response" where
  "raw_response code reason payload =
     \<lparr>status = code, statusText = reason,
      json = Inl (SyntaxError ''Unexpected token < in JSON at position 0''),
      text' = Inr payload, arrayBuffer = Inr payload\<rparr>"

definition bad_gateway :: "(string \<times> (thrown + response)) list" where
  "bad_gateway = [(apps_url, Inr (raw_response 502 ''Bad Gateway'' ''<html>502 Bad Gateway</html>''))]"

definition html_not_found :: "(string \<times> (thrown + response)) list" where
  "html_not_found =
     [(SALES_REPORTS_URL, Inr (raw_response 404 ''Not Found'' ''<html>404 Not Found</html>'')),
      (apps_url, Inr (raw_response 404 ''Not Found'' ''<html>404 Not Found</html>''))]"

definition html_unavailable :: "(string \<times> (thrown + response)) list" where
  "html_unavailable =
     [(SALES_REPORTS_URL,
       Inr (raw_response 503 ''Service Unavailable'' ''<html>503 Service Unavailable</html>''))]"

definition not_found_body :: jsval where
  "not_found_body = Object [(''errors'', Array [Object [(''detail'', String ''Not found'')]])]"

definition nothing_found :: "(string \<times> (thrown + response)) list" where
  "nothing_found =
     [(SALES_REPORTS_URL, Inr (json_response 404 ''Not Found'' not_found_body)),
      (apps_url, Inr (json_response 404 ''Not Found'' not_found_body))]"

definition report_forbidden :: "(string \<times> (thrown + response)) list" where
  "report_forbidden =
     [(SALES_REPORTS_URL,
       Inr (json_response 403 ''Forbidden''
              (Object [(''errors'', Array [Object [(''detail'', String ''Not allowed'')]])])))]"

definition daily_sales :: SalesReportParams where
  "daily_sales =
     \<lparr>frequency = ''DAILY'', reportDate = ''2024-01-01'', reportSubType = ''SUMMARY'',
      reportType = ''SALES'', vendorNumber = ''123'', version = None\<rparr>"

definition storage_url :: string where
  "storage_url = ''https://bucket.s3.amazonaws.com/seg?sig=1''"

definition api_segment_url :: string where
  "api_segment_url = ''https://api.appstoreconnect.apple.com/v1/seg/1''"

definition segments :: "(string \<times> (thrown + response)) list" where
  "segments =
     [(storage_url, Inr (raw_response 200 ''OK'' ''date,units'')),
      (api_segment_url, Inr (raw_response 200 ''OK'' (CHR 0x1F # CHR 0x8B # ''date,units'')))]"

subsection \<open>Review analysis\<close>

text \<open>
  An engine that computes with exact rationals and does not round, and whose dates all
  parse to the same instant; three reviews.
\<close>

definition exact_engine :: "rat engine" where
  "exact_engine =
     \<lparr>divide_num = (\<lambda>a n. of_int a / of_nat n),
      toFixed2 = (\<lambda>x. x),
      exceeds_03 = (\<lambda>x y. x - y > 3 / 10),
      zero_num = 0,
      Date_getTime = (\<lambda>d. 0)\<rparr>"

definition review_of :: "int \<Rightarrow> string \<Rightarrow> CustomerReview" where
  "review_of stars country =
     \<lparr>id' = ''r'', rating = stars, title = None, body' = None, reviewerNickname = ''n'',
      createdDate = ''2024-01-01T00:00:00Z'', territory = country\<rparr>"

section \<open>Properties of the token issuer\<close>

lemma generateToken_hit:
  assumes "cache_hit H s"
  shows "generateToken H s = (Inr (the (cachedToken (auth s))), s\<lparr>world := snd (Date_now H (world s))\<rparr>)"
proof -
  have c: "truthy_token (cachedToken (auth s)) \<and>
        tokenExpiry (auth s) > fst (Date_now H (world s)) div 1000 + 60"
    using assms by (simp add: cache_hit_def now_of_def)
  show ?thesis
    unfolding generateToken_def Let_def by (subst if_P [OF c]) (rule refl)
qed

lemma generateToken_miss:
  assumes "\<not> cache_hit H s"
  shows "generateToken H s =
     (case fst (mint_sign H s) of
        Inl e \<Rightarrow> (Inl e, s\<lparr>world := snd (mint_sign H s), calls := calls s @ [mint_call H s]\<rparr>)
      | Inr token \<Rightarrow> (Inr token,
           \<lparr>auth = (auth s)\<lparr>cachedToken := Some token, tokenExpiry := now_of H s + 1200\<rparr>,
            world = snd (mint_sign H s), calls = calls s @ [mint_call H s]\<rparr>))"
proof -
  have c: "\<not> (truthy_token (cachedToken (auth s)) \<and>
        tokenExpiry (auth s) > fst (Date_now H (world s)) div 1000 + 60)"
    using assms by (simp add: cache_hit_def now_of_def)
  show ?thesis
    unfolding generateToken_def Let_def
    by (subst if_not_P [OF c])
       (simp add: mint_sign_def mint_payload_def mint_call_def now_of_def split: sum.splits)
qed

lemma generateToken_auth_cases:
  "auth (snd (generateToken H s)) = auth s \<or>
   (\<exists>tok p k a i w. fst (jwt_sign H p k a i w) = Inr tok \<and>
      auth (snd (generateToken H s)) = (auth s)\<lparr>cachedToken := Some tok, tokenExpiry := exp p\<rparr>)"
proof (cases "cache_hit H s")
  case True
  then show ?thesis by (simp add: generateToken_hit)
next
  case False
  show ?thesis
  proof (cases "fst (mint_sign H s)")
    case (Inl e)
    with False show ?thesis by (simp add: generateToken_miss)
  next
    case (Inr tok)
    with False have "auth (snd (generateToken H s)) =
        (auth s)\<lparr>cachedToken := Some tok, tokenExpiry := exp (mint_payload H s)\<rparr>"
      by (simp add: generateToken_miss mint_payload_def)
    with Inr show ?thesis unfolding mint_sign_def by blast
  qed
qed

lemma reachable_token_nonempty:
  assumes "signs_nonempty H" "reachable H s"
  shows "cachedToken (auth s) \<noteq> Some []"
  using assms(2)
proof (induction rule: reachable.induct)
  case (constructed c w)
  then show ?case by (simp add: new_AppStoreConnectAuth_def)
next
  case (token s)
  then show ?case
    using generateToken_auth_cases[of H s] assms(1)
    by (auto simp: signs_nonempty_def)
next
  case (outside s w l)
  then show ?case by simp
qed


lemma clock_host_signs_nonempty: "signs_nonempty clock_host"
  by (simp add: signs_nonempty_def clock_host_def)

lemma generateToken_fresh_at:
  "generateToken clock_host (fresh_at ms) =
     (Inr ''eyJ.team.K1'',
      \<lparr>auth = \<lparr>config = team_config, cachedToken = Some ''eyJ.team.K1'',
                tokenExpiry = ms div 1000 + 1200\<rparr>,
       world = ms,
       calls = [Signed \<lparr>iss = ''team'', iat = ms div 1000, exp = ms div 1000 + 1200,
                        aud = ''appstoreconnect-v1''\<rparr> ''PEM'' ''ES256'' ''K1'']\<rparr>)"
  by (simp add: generateToken_def Let_def clock_host_def fresh_at_def
        new_AppStoreConnectAuth_def team_config_def AUDIENCE_def ALGORITHM_def)

lemma cached_at_eq:
  "cached_at minted ms =
     \<lparr>auth = \<lparr>config = team_config, cachedToken = Some ''eyJ.team.K1'',
                tokenExpiry = minted div 1000 + 1200\<rparr>,
       world = ms, calls = []\<rparr>"
  by (simp add: cached_at_def generateToken_fresh_at)

lemma Date_now_clock_host: "Date_now clock_host w = (w, w)"
  by (simp add: clock_host_def)

lemma now_of_clock_host: "now_of clock_host s = world s div 1000"
  by (simp add: now_of_def Date_now_clock_host)

lemma reachable_fresh_at: "reachable clock_host (fresh_at ms)"
  unfolding fresh_at_def by (rule reachable.constructed)

lemma reachable_cached_at: "reachable clock_host (cached_at minted ms)"
  unfolding cached_at_def
  by (rule reachable.outside, rule reachable.token, rule reachable_fresh_at)

text \<open>
  C1. In every reachable state, with a signer that never returns the empty string:
  when a token is cached and its recorded expiry exceeds now + 60, \<open>generateToken\<close>
  returns the cached string and changes nothing but the clock reading (no call to
  \<^verbatim>\<open>jwt.sign\<close> is logged); otherwise it calls \<^verbatim>\<open>jwt.sign\<close> once, and returns and caches
  the new token with expiry now + 1200 (or propagates the signer's error, leaving the
  cache alone). An expiry of exactly now + 61 is reused, one of exactly now + 59 mints.
  Two calls whose clock readings fall in the same second, the first on an empty cache,
  return the same string, the second without signing.
\<close>

theorem generateToken_cache_rule:
  assumes "signs_nonempty H" and "reachable H s"
  shows "(\<forall>t. cachedToken (auth s) = Some t \<and> tokenExpiry (auth s) > now_of H s + 60 \<longrightarrow>
            generateToken H s = (Inr t, s\<lparr>world := snd (Date_now H (world s))\<rparr>) \<and>
            calls (snd (generateToken H s)) = calls s)
       \<and> (\<not> (\<exists>t. cachedToken (auth s) = Some t \<and> tokenExpiry (auth s) > now_of H s + 60) \<longrightarrow>
            calls (snd (generateToken H s)) = calls s @ [mint_call H s] \<and>
            (\<forall>tok. fst (mint_sign H s) = Inr tok \<longrightarrow>
               fst (generateToken H s) = Inr tok \<and>
               cachedToken (auth (snd (generateToken H s))) = Some tok \<and>
               tokenExpiry (auth (snd (generateToken H s))) = now_of H s + 1200) \<and>
            (\<forall>e. fst (mint_sign H s) = Inl e \<longrightarrow>
               fst (generateToken H s) = Inl e \<and> auth (snd (generateToken H s)) = auth s))
       \<and> (\<forall>t. cachedToken (auth s) = Some t \<and> tokenExpiry (auth s) = now_of H s + 61 \<longrightarrow>
            fst (generateToken H s) = Inr t \<and> calls (snd (generateToken H s)) = calls s)
       \<and> (tokenExpiry (auth s) = now_of H s + 59 \<longrightarrow>
            calls (snd (generateToken H s)) = calls s @ [mint_call H s])
       \<and> (\<forall>tok w. cachedToken (auth s) = None \<and> fst (generateToken H s) = Inr tok \<and>
                 fst (Date_now H w) div 1000 = now_of H s \<longrightarrow>
            fst (generateToken H ((snd (generateToken H s))\<lparr>world := w\<rparr>)) = Inr tok \<and>
            calls (snd (generateToken H ((snd (generateToken H s))\<lparr>world := w\<rparr>))) =
              calls (snd (generateToken H s)))"
proof -
  have ne: "cachedToken (auth s) \<noteq> Some []"
    using assms by (rule reachable_token_nonempty)
  have hit_iff: "cache_hit H s \<longleftrightarrow>
      (\<exists>t. cachedToken (auth s) = Some t \<and> tokenExpiry (auth s) > now_of H s + 60)"
    using ne by (cases "cachedToken (auth s)") (auto simp: cache_hit_def)
  have A: "generateToken H s = (Inr t, s\<lparr>world := snd (Date_now H (world s))\<rparr>) \<and>
            calls (snd (generateToken H s)) = calls s"
    if "cachedToken (auth s) = Some t \<and> tokenExpiry (auth s) > now_of H s + 60" for t
  proof -
    from that hit_iff have "cache_hit H s" by blast
    from generateToken_hit [OF this] that show ?thesis by simp
  qed
  have B: "calls (snd (generateToken H s)) = calls s @ [mint_call H s] \<and>
            (\<forall>tok. fst (mint_sign H s) = Inr tok \<longrightarrow>
               fst (generateToken H s) = Inr tok \<and>
               cachedToken (auth (snd (generateToken H s))) = Some tok \<and>
               tokenExpiry (auth (snd (generateToken H s))) = now_of H s + 1200) \<and>
            (\<forall>e. fst (mint_sign H s) = Inl e \<longrightarrow>
               fst (generateToken H s) = Inl e \<and> auth (snd (generateToken H s)) = auth s)"
    if "\<not> cache_hit H s"
    by (cases "fst (mint_sign H s)") (simp_all add: generateToken_miss [OF that])
  have C: "fst (generateToken H s) = Inr t \<and> calls (snd (generateToken H s)) = calls s"
    if "cachedToken (auth s) = Some t \<and> tokenExpiry (auth s) = now_of H s + 61" for t
  proof -
    from that have "cachedToken (auth s) = Some t \<and> tokenExpiry (auth s) > now_of H s + 60"
      by simp
    from A [OF this] show ?thesis by simp
  qed
  have D: "calls (snd (generateToken H s)) = calls s @ [mint_call H s]"
    if "tokenExpiry (auth s) = now_of H s + 59"
  proof -
    from that have "\<not> cache_hit H s" by (simp add: cache_hit_def)
    from B [OF this] show ?thesis by simp
  qed
  have E: "fst (generateToken H ((snd (generateToken H s))\<lparr>world := w\<rparr>)) = Inr tok \<and>
            calls (snd (generateToken H ((snd (generateToken H s))\<lparr>world := w\<rparr>))) =
              calls (snd (generateToken H s))"
    if h: "cachedToken (auth s) = None \<and> fst (generateToken H s) = Inr tok \<and>
                 fst (Date_now H w) div 1000 = now_of H s" for tok w
  proof -
    let ?s1 = "(snd (generateToken H s))\<lparr>world := w\<rparr>"
    from h have miss: "\<not> cache_hit H s" by (simp add: cache_hit_def)
    from h have r: "fst (mint_sign H s) = Inr tok"
      by (cases "fst (mint_sign H s)") (simp_all add: generateToken_miss [OF miss])
    have "tok \<noteq> []"
      using assms(1) r by (auto simp: signs_nonempty_def mint_sign_def)
    moreover have "cachedToken (auth ?s1) = Some tok" "tokenExpiry (auth ?s1) = now_of H s + 1200"
      using r by (simp_all add: generateToken_miss [OF miss])
    moreover have "now_of H ?s1 = now_of H s"
      using h by (simp add: now_of_def)
    ultimately have "cache_hit H ?s1" by (simp add: cache_hit_def)
    from generateToken_hit [OF this] \<open>cachedToken (auth ?s1) = Some tok\<close>
    show ?thesis by simp
  qed
  from A B C D E hit_iff show ?thesis by blast
qed


theorem generateToken_cache_rule_witness:
  "signs_nonempty clock_host \<and> reachable clock_host (fresh_at 1700000000500) \<and>
   reachable clock_host (cached_at 1700000000500 1700001139000) \<and>
   reachable clock_host (cached_at 1700000000500 1700001141000) \<and>
   cachedToken (auth (fresh_at 1700000000500)) = None \<and>
   fst (generateToken clock_host (fresh_at 1700000000500)) = Inr ''eyJ.team.K1'' \<and>
   fst (generateToken clock_host
         ((snd (generateToken clock_host (fresh_at 1700000000500)))\<lparr>world := 1700000000900\<rparr>))
     = Inr ''eyJ.team.K1'' \<and>
   tokenExpiry (auth (cached_at 1700000000500 1700001139000))
     = now_of clock_host (cached_at 1700000000500 1700001139000) + 61 \<and>
   fst (generateToken clock_host (cached_at 1700000000500 1700001139000)) = Inr ''eyJ.team.K1'' \<and>
   calls (snd (generateToken clock_host (cached_at 1700000000500 1700001139000))) = [] \<and>
   tokenExpiry (auth (cached_at 1700000000500 1700001141000))
     = now_of clock_host (cached_at 1700000000500 1700001141000) + 59 \<and>
   calls (snd (generateToken clock_host (cached_at 1700000000500 1700001141000)))
     = [mint_call clock_host (cached_at 1700000000500 1700001141000)]"
proof -
  note ev = generateToken_fresh_at cached_at_eq now_of_clock_host
  have h: "signs_nonempty clock_host" by (rule clock_host_signs_nonempty)
  have r0: "reachable clock_host (fresh_at 1700000000500)" by (rule reachable_fresh_at)
  have r1: "reachable clock_host (cached_at 1700000000500 1700001139000)"
    by (rule reachable_cached_at)
  have r2: "reachable clock_host (cached_at 1700000000500 1700001141000)"
    by (rule reachable_cached_at)
  have c0: "cachedToken (auth (fresh_at 1700000000500)) = None"
    by (simp add: fresh_at_def new_AppStoreConnectAuth_def)
  have t0: "fst (generateToken clock_host (fresh_at 1700000000500)) = Inr ''eyJ.team.K1''"
    by (simp add: ev)
  have d0: "fst (Date_now clock_host 1700000000900) div 1000
              = now_of clock_host (fresh_at 1700000000500)"
    by (simp add: now_of_clock_host Date_now_clock_host fresh_at_def)
  have c1: "cachedToken (auth (cached_at 1700000000500 1700001139000)) = Some ''eyJ.team.K1''"
    by (simp add: ev)
  have e1: "tokenExpiry (auth (cached_at 1700000000500 1700001139000))
     = now_of clock_host (cached_at 1700000000500 1700001139000) + 61"
    by (simp add: ev)
  have k1: "calls (cached_at 1700000000500 1700001139000) = []"
    by (simp add: ev)
  have e2: "tokenExpiry (auth (cached_at 1700000000500 1700001141000))
     = now_of clock_host (cached_at 1700000000500 1700001141000) + 59"
    by (simp add: ev)
  have k2: "calls (cached_at 1700000000500 1700001141000) = []"
    by (simp add: ev)
  from generateToken_cache_rule [OF h r0] c0 t0 d0
  have "fst (generateToken clock_host
         ((snd (generateToken clock_host (fresh_at 1700000000500)))\<lparr>world := 1700000000900\<rparr>))
     = Inr ''eyJ.team.K1''"
    by blast
  moreover from generateToken_cache_rule [OF h r1] c1 e1 k1
  have "fst (generateToken clock_host (cached_at 1700000000500 1700001139000)) = Inr ''eyJ.team.K1''"
       "calls (snd (generateToken clock_host (cached_at 1700000000500 1700001139000))) = []"
    by auto
  moreover from generateToken_cache_rule [OF h r2] e2 k2
  have "calls (snd (generateToken clock_host (cached_at 1700000000500 1700001141000)))
     = [mint_call clock_host (cached_at 1700000000500 1700001141000)]"
    by auto
  ultimately show ?thesis using h r0 r1 r2 c0 t0 e1 e2 by blast
qed

text \<open>
  C2. In any state, a token string returned by \<open>generateToken\<close> is the cached one and
  its recorded expiry is more than 60 seconds after the second read by the call, and
  after the millisecond read as well. A call either signs nothing or signs exactly the
  minting payload, whose \<^verbatim>\<open>iat\<close> is the second read and whose \<^verbatim>\<open>exp\<close> is
  \<^verbatim>\<open>iat\<close> + 1200; a token minted by the call is the signer's output for that
  payload, and the recorded expiry is that \<^verbatim>\<open>exp\<close>.
\<close>

theorem returned_token_expiry_margin:
  "(\<forall>tok. fst (generateToken H s) = Inr tok \<longrightarrow>
      cachedToken (auth (snd (generateToken H s))) = Some tok \<and>
      tokenExpiry (auth (snd (generateToken H s))) > now_of H s + 60 \<and>
      1000 * tokenExpiry (auth (snd (generateToken H s))) > fst (Date_now H (world s)) + 60000)
   \<and> (calls (snd (generateToken H s)) = calls s \<or>
        calls (snd (generateToken H s)) = calls s @ [mint_call H s])
   \<and> (\<forall>tok. calls (snd (generateToken H s)) \<noteq> calls s \<and> fst (generateToken H s) = Inr tok \<longrightarrow>
        fst (mint_sign H s) = Inr tok \<and>
        tokenExpiry (auth (snd (generateToken H s))) = exp (mint_payload H s))
   \<and> iat (mint_payload H s) = now_of H s
   \<and> exp (mint_payload H s) = iat (mint_payload H s) + 1200"
proof (cases "cache_hit H s")
  case True
  then obtain t where t: "cachedToken (auth s) = Some t" "t \<noteq> []"
    and e: "tokenExpiry (auth s) > now_of H s + 60"
    by (cases "cachedToken (auth s)") (auto simp: cache_hit_def)
  have "fst (Date_now H (world s)) < 1000 * now_of H s + 1000"
    unfolding now_of_def by presburger
  with e have "1000 * tokenExpiry (auth s) > fst (Date_now H (world s)) + 60000"
    by linarith
  with t e show ?thesis
    by (simp add: generateToken_hit [OF True] mint_payload_def)
next
  case False
  have "fst (Date_now H (world s)) < 1000 * now_of H s + 1000"
    unfolding now_of_def by presburger
  then have "1000 * (now_of H s + 1200) > fst (Date_now H (world s)) + 60000"
    by simp
  then show ?thesis
    by (cases "fst (mint_sign H s)")
       (simp_all add: generateToken_miss [OF False] mint_payload_def)
qed

theorem returned_token_expiry_margin_witness:
  "fst (generateToken clock_host (fresh_at 1700000000500)) = Inr ''eyJ.team.K1'' \<and>
   fst (generateToken clock_host (cached_at 1700000000500 1700001139000)) = Inr ''eyJ.team.K1'' \<and>
   tokenExpiry (auth (snd (generateToken clock_host (fresh_at 1700000000500)))) = 1700001200 \<and>
   tokenExpiry (auth (snd (generateToken clock_host (cached_at 1700000000500 1700001139000))))
     = 1700001200 \<and>
   now_of clock_host (cached_at 1700000000500 1700001139000) = 1700001139 \<and>
   calls (snd (generateToken clock_host (fresh_at 1700000000500))) \<noteq> calls (fresh_at 1700000000500) \<and>
   fst (mint_sign clock_host (fresh_at 1700000000500)) = Inr ''eyJ.team.K1'' \<and>
   exp (mint_payload clock_host (fresh_at 1700000000500)) = 1700001200"
proof -
  note ev = generateToken_fresh_at cached_at_eq now_of_clock_host
  have t0: "fst (generateToken clock_host (fresh_at 1700000000500)) = Inr ''eyJ.team.K1''"
    by (simp add: ev)
  have n0: "calls (snd (generateToken clock_host (fresh_at 1700000000500)))
              \<noteq> calls (fresh_at 1700000000500)"
    by (simp add: ev) (simp add: fresh_at_def)
  have t1: "fst (generateToken clock_host (cached_at 1700000000500 1700001139000))
              = Inr ''eyJ.team.K1''"
    by (simp add: ev generateToken_def Let_def Date_now_clock_host)
  have e1: "tokenExpiry (auth (snd (generateToken clock_host (cached_at 1700000000500 1700001139000))))
     = 1700001200"
    by (simp add: ev generateToken_def Let_def Date_now_clock_host)
  have n1: "now_of clock_host (cached_at 1700000000500 1700001139000) = 1700001139"
    by (simp add: ev)
  have x0: "exp (mint_payload clock_host (fresh_at 1700000000500)) = 1700001200"
    by (simp add: mint_payload_def now_of_clock_host fresh_at_def)
  from returned_token_expiry_margin [of clock_host "fresh_at 1700000000500"] t0 n0 x0
  have "fst (mint_sign clock_host (fresh_at 1700000000500)) = Inr ''eyJ.team.K1''"
       "tokenExpiry (auth (snd (generateToken clock_host (fresh_at 1700000000500)))) = 1700001200"
    by auto
  with t0 t1 e1 n1 n0 x0 show ?thesis by blast
qed

section \<open>Properties of the pagination walker\<close>

lemma get_prop_not_nullish: "\<not> nullish v \<Longrightarrow> get_prop v name = Inr (own_prop v name)"
  by (cases v) (simp_all add: get_prop_def)

lemma getAll_loop_unfold:
  "getAll_loop H nextUrl results s =
     (if \<not> truthy nextUrl then Some (Inr results, s)
      else
        (case page_request H nextUrl s of
           (Inl e, s2) \<Rightarrow> Some (Inl e, s2)
         | (Inr response, s2) \<Rightarrow>
             if \<not> ok response then Some (Inr results, s2)
             else
               (case json response of
                  Inl e \<Rightarrow> Some (Inl e, s2)
                | Inr data \<Rightarrow>
                    (case get_prop data ''data'' of
                       Inl e \<Rightarrow> Some (Inl e, s2)
                     | Inr d \<Rightarrow>
                         (case get_prop (own_prop data ''links'') ''next'' of
                            Inl e \<Rightarrow> Some (Inl e, s2)
                          | Inr next \<Rightarrow>
                              getAll_loop H next
                                (results @ (if isArray d then elements d else [])) s2)))))"
  by (subst getAll_loop.simps) (simp add: page_request_def split: prod.splits sum.splits)

lemma loop_no_next:
  "\<not> truthy nextUrl \<Longrightarrow> getAll_loop H nextUrl results s = Some (Inr results, s)"
  by (subst getAll_loop_unfold) simp

lemma loop_not_ok:
  "truthy nextUrl \<Longrightarrow> page_request H nextUrl s = (Inr response, s1) \<Longrightarrow> \<not> ok response \<Longrightarrow>
   getAll_loop H nextUrl results s = Some (Inr results, s1)"
  by (subst getAll_loop_unfold) simp

lemma loop_rejected:
  "truthy nextUrl \<Longrightarrow> page_request H nextUrl s = (Inl e, s1) \<Longrightarrow>
   getAll_loop H nextUrl results s = Some (Inl e, s1)"
  by (subst getAll_loop_unfold) simp

lemma loop_page:
  "truthy nextUrl \<Longrightarrow> page_request H nextUrl s = (Inr response, s1) \<Longrightarrow> ok response \<Longrightarrow>
   json response = Inr page \<Longrightarrow> envelope page \<Longrightarrow>
   getAll_loop H nextUrl results s = getAll_loop H (page_next page) (results @ page_items page) s1"
  by (subst getAll_loop_unfold)
     (simp add: envelope_def get_prop_not_nullish page_items_def page_data_def page_next_def)

lemma loop_walk:
  "walk H fin nextUrl s pages \<Longrightarrow>
   map_option fst (getAll_loop H nextUrl results s)
     = Some (Inr (results @ concat (map page_items pages)))"
proof (induction pages arbitrary: nextUrl s results)
  case Nil
  show ?case
  proof (cases fin)
    case NoNextLink
    with Nil show ?thesis by (simp add: loop_no_next)
  next
    case NotOk
    with Nil obtain response s1 where "truthy nextUrl"
      "page_request H nextUrl s = (Inr response, s1)" "\<not> ok response"
      by (auto split: prod.splits sum.splits)
    then show ?thesis by (simp add: loop_not_ok)
  qed
next
  case (Cons page pages)
  then obtain response s1 where t: "truthy nextUrl"
    and r: "page_request H nextUrl s = (Inr response, s1)" "ok response"
       "json response = Inr page" "envelope page"
    and w: "walk H fin (page_next page) s1 pages"
    by (auto split: prod.splits sum.splits)
  from Cons.IH [OF w, of "results @ page_items page"]
  show ?case by (simp add: loop_page [OF t r])
qed

lemma getAll_first_rejected:
  "get H endpoint params s = (Inl e, s1) \<Longrightarrow> getAll H endpoint params s = Some (Inl e, s1)"
  by (simp add: getAll_def)

lemma getAll_first_page:
  "get H endpoint params s = (Inr first, s1) \<Longrightarrow> envelope first \<Longrightarrow>
   getAll H endpoint params s = getAll_loop H (page_next first) (page_items first) s1"
  by (simp add: getAll_def envelope_def get_prop_not_nullish page_items_def page_data_def
        page_next_def)


lemma mock_host_sel:
  "Date_now (mock_host server) w = (1700000000000, w)"
  "jwt_sign (mock_host server) p k a i w = (Inr ''eyJ.mock.sig'', w)"
  "fetch (mock_host server) req w = (server req, Suc w)"
  "Number_toString (mock_host server) n = ''0''"
  "Buffer_toString_utf8 (mock_host server) b = b"
  "TextDecoder_decode (mock_host server) b = b"
  by (simp_all add: mock_host_def)

lemma mock_headers:
  "getAuthHeaders (mock_host server) s =
     (if cache_hit (mock_host server) s
      then (Inr [(''Authorization'', ''Bearer '' @ the (cachedToken (auth s))),
                 (''Content-Type'', ''application/json'')], s)
      else (Inr [(''Authorization'', ''Bearer eyJ.mock.sig''),
                 (''Content-Type'', ''application/json'')],
            \<lparr>auth = (auth s)\<lparr>cachedToken := Some ''eyJ.mock.sig'', tokenExpiry := 1700001200\<rparr>,
             world = world s,
             calls = calls s @ [mint_call (mock_host server) s]\<rparr>))"
  by (simp add: getAuthHeaders_def generateToken_hit generateToken_miss mint_sign_def
        now_of_def mock_host_sel)

lemma mock_cache_hit:
  "cache_hit (mock_host server) s \<longleftrightarrow>
     truthy_token (cachedToken (auth s)) \<and> tokenExpiry (auth s) > 1700000060"
  by (simp add: cache_hit_def now_of_def mock_host_sel)

lemmas mock_eval =
  mock_headers mock_cache_hit mock_start_def new_AppStoreConnectAuth_def await_fetch_def
  mock_host_sel serve_def apps_url_def BASE_URL_def json_response_def ok_def get_prop_def
  api_error_def opt_prop_def opt_index0_def or_js_def

lemmas walk_eval =
  list_page_def page_request_def envelope_def page_next_def page_data_def page_items_def

lemma get_page_one:
  "routes = (apps_url, Inr (json_response 200 ''OK'' p)) # others \<Longrightarrow>
   get (mock_host (serve routes)) ''/apps'' None mock_start
     = (Inr p,
        \<lparr>auth = \<lparr>config = team_config, cachedToken = Some ''eyJ.mock.sig'',
                  tokenExpiry = 1700001200\<rparr>,
         world = 1,
         calls = [mint_call (mock_host (serve routes)) mock_start,
                  Fetched \<lparr>url = apps_url, searchParams = [], method' = ''GET'',
                           headers = [(''Authorization'', ''Bearer eyJ.mock.sig''),
                                      (''Content-Type'', ''application/json'')],
                           body = None\<rparr>]\<rparr>)"
  by (simp add: get_def mock_eval)

text \<open>
  C3. When the first request succeeds, the requests of the walk that follows succeed,
  every page is an envelope whose primary data is an array, and the last page has no
  next link, \<open>getAll\<close> returns (so the loop ends) the arrays of all pages, concatenated
  in page order. The witness is the walk of three pages of 10, 10 and 5 items.
\<close>

theorem getAll_complete_walk:
  assumes "fst (get H endpoint params s) = Inr first" and "envelope first"
    and "walk H NoNextLink (page_next first) (snd (get H endpoint params s)) rest"
    and "list_all (\<lambda>page. isArray (page_data page)) (first # rest)"
  shows "map_option fst (getAll H endpoint params s)
           = Some (Inr (concat (map (\<lambda>page. elements (page_data page)) (first # rest))))"
proof -
  have g: "get H endpoint params s = (Inr first, snd (get H endpoint params s))"
    using assms(1) by (simp add: prod_eq_iff)
  have eq: "map page_items (first # rest) = map (\<lambda>page. elements (page_data page)) (first # rest)"
    using assms(4) by (simp add: list_all_iff page_items_def)
  have "map_option fst (getAll H endpoint params s)
      = Some (Inr (concat (map page_items (first # rest))))"
    using loop_walk [OF assms(3)] by (simp add: getAll_first_page [OF g assms(2)])
  then show ?thesis by (simp only: eq)
qed

theorem getAll_complete_walk_witness:
  "fst (get (mock_host (serve three_pages)) ''/apps'' None mock_start)
     = Inr (list_page [1, 2, 3, 4, 5, 6, 7, 8, 9, 10] (Some ''https://next/2'')) \<and>
   walk (mock_host (serve three_pages)) NoNextLink (String ''https://next/2'')
     (snd (get (mock_host (serve three_pages)) ''/apps'' None mock_start))
     [list_page [11, 12, 13, 14, 15, 16, 17, 18, 19, 20] (Some ''https://next/3''),
      list_page [21, 22, 23, 24, 25] None] \<and>
   map_option fst (getAll (mock_host (serve three_pages)) ''/apps'' None mock_start)
     = Some (Inr (map Number [1, 2, 3, 4, 5, 6, 7, 8, 9, 10, 11, 12, 13, 14, 15, 16, 17, 18, 19,
                             20, 21, 22, 23, 24, 25]))"
proof -
  let ?H = "mock_host (serve three_pages)"
  let ?p1 = "list_page [1, 2, 3, 4, 5, 6, 7, 8, 9, 10] (Some ''https://next/2'')"
  let ?rest = "[list_page [11, 12, 13, 14, 15, 16, 17, 18, 19, 20] (Some ''https://next/3''),
                list_page [21, 22, 23, 24, 25] None]"
  have g: "get ?H ''/apps'' None mock_start
     = (Inr ?p1,
        \<lparr>auth = \<lparr>config = team_config, cachedToken = Some ''eyJ.mock.sig'',
                  tokenExpiry = 1700001200\<rparr>,
         world = 1,
         calls = [mint_call ?H mock_start,
                  Fetched \<lparr>url = apps_url, searchParams = [], method' = ''GET'',
                           headers = [(''Authorization'', ''Bearer eyJ.mock.sig''),
                                      (''Content-Type'', ''application/json'')],
                           body = None\<rparr>]\<rparr>)"
    by (simp add: get_def mock_eval walk_eval three_pages_def)
  have h1: "fst (get ?H ''/apps'' None mock_start) = Inr ?p1"
    by (simp add: g)
  have h2: "envelope ?p1"
    by (simp add: envelope_def list_page_def)
  have n: "page_next ?p1 = String ''https://next/2''"
    by (simp add: page_next_def list_page_def)
  have h3: "walk ?H NoNextLink (String ''https://next/2'') (snd (get ?H ''/apps'' None mock_start)) ?rest"
    by (simp add: g) (simp add: mock_eval walk_eval three_pages_def)
  have h4: "list_all (\<lambda>page. isArray (page_data page)) (?p1 # ?rest)"
    by (simp add: page_data_def list_page_def)
  from getAll_complete_walk [OF h1 h2 h3 [folded n] h4]
  have "map_option fst (getAll ?H ''/apps'' None mock_start)
     = Some (Inr (map Number [1, 2, 3, 4, 5, 6, 7, 8, 9, 10, 11, 12, 13, 14, 15, 16, 17, 18, 19,
                             20, 21, 22, 23, 24, 25]))"
    by (simp add: page_data_def list_page_def)
  with h1 h3 show ?thesis by blast
qed


text \<open>
  C4, as stated, fails: a first page answered with status 500 makes \<open>getAll\<close> throw the
  API error of \<open>get\<close>, and a rejected \<^verbatim>\<open>fetch\<close> for the second page is thrown on,
  since nothing in \<open>getAll\<close> catches.
\<close>

theorem getAll_partial_failure_counterexample:
  "map_option fst (getAll (mock_host (serve first_page_refused)) ''/apps'' None mock_start)
     = Some (Inl (Error ''API Error: An unexpected error occurred.'')) \<and>
   map_option fst (getAll (mock_host (serve second_page_unreachable)) ''/apps'' None mock_start)
     = Some (Inl (TypeError ''fetch failed''))"
proof -
  have "get (mock_host (serve first_page_refused)) ''/apps'' None mock_start
     = (Inl (Error ''API Error: An unexpected error occurred.''),
        snd (get (mock_host (serve first_page_refused)) ''/apps'' None mock_start))"
    by (simp add: get_def mock_eval first_page_refused_def server_error_def)
  then have a: "map_option fst (getAll (mock_host (serve first_page_refused)) ''/apps'' None mock_start)
     = Some (Inl (Error ''API Error: An unexpected error occurred.''))"
    by (simp add: getAll_first_rejected)
  let ?H = "mock_host (serve second_page_unreachable)"
  let ?p1 = "list_page [1, 2, 3, 4, 5, 6, 7, 8, 9, 10] (Some ''https://next/2'')"
  note g = get_page_one [OF second_page_unreachable_def]
  have e: "envelope ?p1" by (simp add: envelope_def list_page_def)
  have n: "page_next ?p1 = String ''https://next/2''" by (simp add: page_next_def list_page_def)
  have "map_option fst (getAll ?H ''/apps'' None mock_start) = Some (Inl (TypeError ''fetch failed''))"
    unfolding getAll_first_page [OF g e] n
    by (subst getAll_loop_unfold) (simp add: mock_eval walk_eval second_page_unreachable_def)
  with a show ?thesis by blast
qed

text \<open>
  C4, amended. When the first request succeeds and a later page request is answered
  with a status outside 200..299, \<open>getAll\<close> returns the items of the pages before it
  and throws nothing. The first request is made through \<open>get\<close>: when it fails,
  \<open>getAll\<close> throws what \<open>get\<close> throws.
\<close>

theorem getAll_stops_at_refused_page:
  "(fst (get H endpoint params s) = Inr first \<and> envelope first \<and>
    walk H NotOk (page_next first) (snd (get H endpoint params s)) rest \<longrightarrow>
      map_option fst (getAll H endpoint params s)
        = Some (Inr (concat (map page_items (first # rest)))))
   \<and> (\<forall>e. fst (get H endpoint params s) = Inl e \<longrightarrow>
          map_option fst (getAll H endpoint params s) = Some (Inl e))"
proof (intro conjI impI allI)
  assume a: "fst (get H endpoint params s) = Inr first \<and> envelope first \<and>
    walk H NotOk (page_next first) (snd (get H endpoint params s)) rest"
  then have g: "get H endpoint params s = (Inr first, snd (get H endpoint params s))"
    by (simp add: prod_eq_iff)
  from a have w: "walk H NotOk (page_next first) (snd (get H endpoint params s)) rest"
    and e: "envelope first" by simp_all
  show "map_option fst (getAll H endpoint params s)
        = Some (Inr (concat (map page_items (first # rest))))"
    using loop_walk [OF w] by (simp add: getAll_first_page [OF g e])
next
  fix e assume "fst (get H endpoint params s) = Inl e"
  then have "get H endpoint params s = (Inl e, snd (get H endpoint params s))"
    by (simp add: prod_eq_iff)
  then show "map_option fst (getAll H endpoint params s) = Some (Inl e)"
    by (simp add: getAll_first_rejected)
qed

theorem getAll_stops_at_refused_page_witness:
  "fst (get (mock_host (serve second_page_refused)) ''/apps'' None mock_start)
     = Inr (list_page [1, 2, 3, 4, 5, 6, 7, 8, 9, 10] (Some ''https://next/2'')) \<and>
   walk (mock_host (serve second_page_refused)) NotOk (String ''https://next/2'')
     (snd (get (mock_host (serve second_page_refused)) ''/apps'' None mock_start)) [] \<and>
   map_option fst (getAll (mock_host (serve second_page_refused)) ''/apps'' None mock_start)
     = Some (Inr (map Number [1, 2, 3, 4, 5, 6, 7, 8, 9, 10]))"
proof -
  let ?H = "mock_host (serve second_page_refused)"
  let ?p1 = "list_page [1, 2, 3, 4, 5, 6, 7, 8, 9, 10] (Some ''https://next/2'')"
  note g = get_page_one [OF second_page_refused_def]
  have h1: "fst (get ?H ''/apps'' None mock_start) = Inr ?p1"
    by (simp add: g)
  have h2: "envelope ?p1"
    by (simp add: envelope_def list_page_def)
  have n: "page_next ?p1 = String ''https://next/2''"
    by (simp add: page_next_def list_page_def)
  have h3: "walk ?H NotOk (String ''https://next/2'') (snd (get ?H ''/apps'' None mock_start)) []"
    by (simp add: g) (simp add: mock_eval walk_eval second_page_refused_def server_error_def)
  from getAll_stops_at_refused_page [of ?H "''/apps''" None mock_start ?p1 "[]"] h1 h2 h3 [folded n]
  have "map_option fst (getAll ?H ''/apps'' None mock_start)
          = Some (Inr (concat (map page_items [?p1])))"
    by blast
  then have "map_option fst (getAll ?H ''/apps'' None mock_start)
     = Some (Inr (map Number [1, 2, 3, 4, 5, 6, 7, 8, 9, 10]))"
    by (simp add: page_items_def page_data_def list_page_def)
  with h1 h3 show ?thesis by blast
qed

text \<open>
  C9, as stated, fails: a single page whose primary data is one resource yields no
  item at all.
\<close>

theorem getAll_single_resource_counterexample:
  "map_option fst (getAll (mock_host (serve one_app)) ''/apps'' None mock_start) = Some (Inr [])"
proof -
  let ?p = "Object [(''data'', single_resource), (''links'', Object [(''self'', String ''self'')])]"
  note g = get_page_one [OF one_app_def]
  have e: "envelope ?p" by (simp add: envelope_def)
  have n: "page_next ?p = Undefined" by (simp add: page_next_def)
  have i: "page_items ?p = []" by (simp add: page_items_def page_data_def single_resource_def)
  show ?thesis
    unfolding getAll_first_page [OF g e] n i by (simp add: loop_no_next)
qed

text \<open>
  C9, amended. Only pages whose primary data is an array contribute: the result of a
  walk is the concatenation of the arrays of those pages, and a page whose primary
  data is a single resource adds nothing.
\<close>

theorem getAll_skips_non_sequence_data:
  assumes "fst (get H endpoint params s) = Inr first" and "envelope first"
    and "walk H fin (page_next first) (snd (get H endpoint params s)) rest"
  shows "map_option fst (getAll H endpoint params s)
           = Some (Inr (concat (map (\<lambda>page. elements (page_data page))
                                  (filter (\<lambda>page. isArray (page_data page)) (first # rest)))))"
proof -
  have g: "get H endpoint params s = (Inr first, snd (get H endpoint params s))"
    using assms(1) by (simp add: prod_eq_iff)
  have eq: "concat (map page_items ps)
      = concat (map (\<lambda>page. elements (page_data page))
                 (filter (\<lambda>page. isArray (page_data page)) ps))" for ps
    by (induction ps) (simp_all add: page_items_def)
  have "map_option fst (getAll H endpoint params s)
      = Some (Inr (concat (map page_items (first # rest))))"
    using loop_walk [OF assms(3)] by (simp add: getAll_first_page [OF g assms(2)])
  then show ?thesis by (simp only: eq)
qed

theorem getAll_skips_non_sequence_data_witness:
  "fst (get (mock_host (serve app_then_list)) ''/apps'' None mock_start)
     = Inr (Object [(''data'', single_resource),
                    (''links'', Object [(''self'', String ''self''),
                                        (''next'', String ''https://next/2'')])]) \<and>
   \<not> isArray single_resource \<and>
   walk (mock_host (serve app_then_list)) NoNextLink (String ''https://next/2'')
     (snd (get (mock_host (serve app_then_list)) ''/apps'' None mock_start)) [list_page [7, 8] None] \<and>
   map_option fst (getAll (mock_host (serve app_then_list)) ''/apps'' None mock_start)
     = Some (Inr [Number 7, Number 8])"
proof -
  let ?H = "mock_host (serve app_then_list)"
  let ?p1 = "Object [(''data'', single_resource),
                    (''links'', Object [(''self'', String ''self''),
                                        (''next'', String ''https://next/2'')])]"
  note g = get_page_one [OF app_then_list_def]
  have h1: "fst (get ?H ''/apps'' None mock_start) = Inr ?p1"
    by (simp add: g)
  have h2: "envelope ?p1"
    by (simp add: envelope_def)
  have n: "page_next ?p1 = String ''https://next/2''"
    by (simp add: page_next_def)
  have s: "\<not> isArray single_resource"
    by (simp add: single_resource_def)
  have h3: "walk ?H NoNextLink (String ''https://next/2'') (snd (get ?H ''/apps'' None mock_start))
              [list_page [7, 8] None]"
    by (simp add: g) (simp add: mock_eval walk_eval app_then_list_def)
  have h3': "walk ?H NoNextLink (page_next ?p1) (snd (get ?H ''/apps'' None mock_start))
              [list_page [7, 8] None]"
    using h3 by (simp only: n)
  from getAll_skips_non_sequence_data [OF h1 h2 h3'] s
  have "map_option fst (getAll ?H ''/apps'' None mock_start) = Some (Inr [Number 7, Number 8])"
    by (simp add: page_data_def list_page_def single_resource_def)
  with h1 s h3 show ?thesis by blast
qed

section \<open>Properties of the request engine and the downloaders\<close>

lemma get_unfold:
  "get H endpoint params s =
     (case get_request H endpoint params s of
        (Inl e, s2) \<Rightarrow> (Inl e, s2)
      | (Inr response, s2) \<Rightarrow>
          if \<not> ok response then (Inl (api_error H response), s2) else (json response, s2))"
  by (simp add: get_def get_request_def split: prod.splits sum.splits)

lemma getSalesReport_unfold:
  "getSalesReport H params s =
     (case sales_request H params s of
        (Inl e, s2) \<Rightarrow> (Inl e, s2)
      | (Inr response, s2) \<Rightarrow>
          if \<not> ok response then
            if status response = 404 then (Inl not_yet_available, s2)
            else (Inl (api_error H response), s2)
          else
            (case arrayBuffer response of
               Inl e \<Rightarrow> (Inl e, s2)
             | Inr buffer \<Rightarrow>
                 (case gunzipSync H buffer of
                    Inl e \<Rightarrow> (Inl e, s2)
                  | Inr decompressed \<Rightarrow> (Inr (Buffer_toString_utf8 H decompressed), s2))))"
  by (simp add: getSalesReport_def sales_request_def not_yet_available_def
        split: prod.splits sum.splits)

lemma downloadAnalyticsSegment_unfold:
  "downloadAnalyticsSegment H segmentUrl s =
     (case segment_request H segmentUrl s of
        (Inl e, s2) \<Rightarrow> (Inl (rethrow e), s2)
      | (Inr response, s2) \<Rightarrow>
          if \<not> ok response then
            (Inl (rethrow (Error (''Failed to download analytics segment: '' @
                     decimal (status response) @ '' '' @ statusText response @ '' - '' @
                     take 200 (case text' response of
                                 Inl _ \<Rightarrow> statusText response
                               | Inr t \<Rightarrow> t)))), s2)
          else
            (case arrayBuffer response of
               Inl e \<Rightarrow> (Inl (rethrow e), s2)
             | Inr buffer \<Rightarrow>
                 (case gunzipSync H buffer of
                    Inr decompressed \<Rightarrow> (Inr (Buffer_toString_utf8 H decompressed), s2)
                  | Inl decompressError \<Rightarrow> (Inr (TextDecoder_decode H buffer), s2))))"
  by (simp add: downloadAnalyticsSegment_def segment_request_def isS3Url_def Let_def
        split: prod.splits sum.splits)

lemma api_error_json:
  "json response = Inr v \<Longrightarrow> \<not> nullish v \<Longrightarrow>
   api_error H response =
     (case ToString (Number_toString H)
             (or_js (opt_prop (opt_index0 (own_prop v ''errors'')) ''detail'')
                    (String (statusText response))) of
        Inl e \<Rightarrow> e
      | Inr message \<Rightarrow> Error (''API Error: '' @ message))"
  by (cases v) (simp_all add: api_error_def get_prop_def)

lemma api_error_detail:
  "json response = Inr v \<Longrightarrow> \<not> nullish v \<Longrightarrow>
   opt_prop (opt_index0 (own_prop v ''errors'')) ''detail'' = String d \<Longrightarrow> d \<noteq> [] \<Longrightarrow>
   api_error H response = Error (''API Error: '' @ d)"
  by (simp add: api_error_json or_js_def)

lemma api_error_fallback:
  "json response = Inr v \<Longrightarrow> \<not> nullish v \<Longrightarrow>
   \<not> truthy (opt_prop (opt_index0 (own_prop v ''errors'')) ''detail'') \<Longrightarrow>
   api_error H response = Error (''API Error: '' @ statusText response)"
  by (simp add: api_error_json or_js_def)




lemma api_error_not_found:
  "api_error H (json_response code reason not_found_body) = Error ''API Error: Not found''"
  by (simp add: api_error_def json_response_def not_found_body_def get_prop_def opt_prop_def
        opt_index0_def or_js_def)




text \<open>
  C5. The claim holds for a response whose body parses as JSON and carries a string
  detail or none (lemmas \<open>api_error_detail\<close> and \<open>api_error_fallback\<close>), but not for
  every response that is not ok: on a 502 whose body is an HTML page,
  \<^verbatim>\<open>response.json()\<close> rejects and \<open>get\<close> and \<open>delete\<close> throw that SyntaxError, not an
  error with the message \<^verbatim>\<open>API Error: Bad Gateway\<close>.
\<close>

theorem request_engine_non_json_error_body:
  "fst (get (mock_host (serve bad_gateway)) ''/apps'' None mock_start)
     = Inl (SyntaxError ''Unexpected token < in JSON at position 0'') \<and>
   fst (delete (mock_host (serve bad_gateway)) ''/apps'' mock_start)
     = Inl (SyntaxError ''Unexpected token < in JSON at position 0'') \<and>
   fst (get (mock_host (serve bad_gateway)) ''/apps'' None mock_start)
     \<noteq> Inl (Error ''API Error: Bad Gateway'')"
  by (simp add: get_def delete_def mock_eval bad_gateway_def raw_response_def)

lemma getSalesReport_404:
  assumes "fst (sales_request H params s) = Inr response" and "status response = 404"
  shows "fst (getSalesReport H params s) = Inl not_yet_available"
proof -
  obtain s2 where "sales_request H params s = (Inr response, s2)"
    using assms(1) by (cases "sales_request H params s") simp
  with assms(2) show ?thesis
    by (simp add: getSalesReport_unfold ok_def)
qed

lemma getSalesReport_not_ok:
  assumes "fst (sales_request H params s) = Inr response" and "\<not> ok response"
    and "status response \<noteq> 404"
  shows "fst (getSalesReport H params s) = Inl (api_error H response)"
proof -
  obtain s2 where "sales_request H params s = (Inr response, s2)"
    using assms(1) by (cases "sales_request H params s") simp
  with assms(2,3) show ?thesis
    by (simp add: getSalesReport_unfold)
qed

lemma get_not_ok:
  assumes "fst (get_request H endpoint query s) = Inr response" and "\<not> ok response"
  shows "fst (get H endpoint query s) = Inl (api_error H response)"
proof -
  obtain s2 where "get_request H endpoint query s = (Inr response, s2)"
    using assms(1) by (cases "get_request H endpoint query s") simp
  with assms(2) show ?thesis
    by (simp add: get_unfold)
qed

lemma json_404_examples:
  "fst (getSalesReport (mock_host (serve nothing_found)) daily_sales mock_start)
     = Inl not_yet_available"
  "fst (get (mock_host (serve nothing_found)) ''/apps'' None mock_start)
     = Inl (Error ''API Error: Not found'')"
  "fst (getSalesReport (mock_host (serve report_forbidden)) daily_sales mock_start)
     = Inl (Error ''API Error: Not allowed'')"
proof -
  let ?H = "mock_host (serve nothing_found)"
  let ?r = "json_response 404 ''Not Found'' not_found_body"
  let ?F = "mock_host (serve report_forbidden)"
  let ?f = "json_response 403 ''Forbidden''
              (Object [(''errors'', Array [Object [(''detail'', String ''Not allowed'')]])])"
  have s1: "fst (sales_request ?H daily_sales mock_start) = Inr ?r"
    by (simp add: sales_request_def mock_eval nothing_found_def SALES_REPORTS_URL_def)
  have g1: "fst (get_request ?H ''/apps'' None mock_start) = Inr ?r"
    by (simp add: get_request_def mock_eval nothing_found_def SALES_REPORTS_URL_def)
  have s2: "fst (sales_request ?F daily_sales mock_start) = Inr ?f"
    by (simp add: sales_request_def mock_eval report_forbidden_def SALES_REPORTS_URL_def)
  have c: "status ?r = 404" "\<not> ok ?r" "status ?f \<noteq> 404" "\<not> ok ?f"
    by (simp_all add: json_response_def ok_def)
  have e: "api_error ?F ?f = Error ''API Error: Not allowed''"
    by (simp add: api_error_def json_response_def get_prop_def opt_prop_def
        opt_index0_def or_js_def)
  show "fst (getSalesReport ?H daily_sales mock_start) = Inl not_yet_available"
    using getSalesReport_404 [OF s1 c(1)] .
  show "fst (get ?H ''/apps'' None mock_start) = Inl (Error ''API Error: Not found'')"
    using get_not_ok [OF g1 c(2)] by (simp add: api_error_not_found)
  show "fst (getSalesReport ?F daily_sales mock_start) = Inl (Error ''API Error: Not allowed'')"
    using getSalesReport_not_ok [OF s2 c(4) c(3)] by (simp add: e)
qed

text \<open>
  C7. The half of the claim about the report endpoint holds: a 404 to the sales-report
  request makes \<open>getSalesReport\<close> throw the report-not-yet-available error, whatever
  the body (lemma \<open>getSalesReport_404\<close>), and any other status outside 200..299 goes
  through the same handling as in \<open>get\<close> (lemma \<open>getSalesReport_not_ok\<close>). But that
  handling does not always produce the generic API error: on a 404 from a resource
  endpoint whose body is an HTML page, \<^verbatim>\<open>response.json()\<close> rejects and \<open>get\<close> throws
  the parser's SyntaxError, not an error with the message \<^verbatim>\<open>API Error: Not Found\<close>;
  and a 503 with an HTML body on the report endpoint throws the same SyntaxError. This
  is the unguarded \<^verbatim>\<open>response.json()\<close> of C5.
\<close>

theorem generic_404_non_json_error_body:
  "fst (getSalesReport (mock_host (serve html_not_found)) daily_sales mock_start)
     = Inl (Error ''No report available for the specified date. Reports may take up to 24 hours to be available.'') \<and>
   fst (get (mock_host (serve html_not_found)) ''/apps'' None mock_start)
     = Inl (SyntaxError ''Unexpected token < in JSON at position 0'') \<and>
   fst (get (mock_host (serve html_not_found)) ''/apps'' None mock_start)
     \<noteq> Inl (Error ''API Error: Not Found'') \<and>
   fst (getSalesReport (mock_host (serve html_unavailable)) daily_sales mock_start)
     = Inl (SyntaxError ''Unexpected token < in JSON at position 0'')"
  by (simp add: get_def getSalesReport_def mock_eval html_not_found_def html_unavailable_def
        raw_response_def SALES_REPORTS_URL_def)



text \<open>
  C8. When the segment request is answered with an ok response whose bytes arrive,
  \<open>downloadAnalyticsSegment\<close> returns text and throws nothing: when \<^verbatim>\<open>gunzipSync\<close>
  throws on the bytes (they are not gzip), the bytes themselves decoded by
  \<^verbatim>\<open>TextDecoder\<close>; when it succeeds, the decompressed bytes decoded as UTF-8.
\<close>

theorem segment_gzip_fallback:
  assumes "fst (segment_request H segmentUrl s) = Inr response" and "ok response"
    and "arrayBuffer response = Inr buffer"
  shows "fst (downloadAnalyticsSegment H segmentUrl s) =
           Inr (case gunzipSync H buffer of
                  Inl decompressError \<Rightarrow> TextDecoder_decode H buffer
                | Inr decompressed \<Rightarrow> Buffer_toString_utf8 H decompressed)"
proof -
  obtain s2 where "segment_request H segmentUrl s = (Inr response, s2)"
    using assms(1) by (cases "segment_request H segmentUrl s") simp
  with assms(2,3) show ?thesis
    by (simp add: downloadAnalyticsSegment_unfold split: sum.splits)
qed

theorem segment_gzip_fallback_witness:
  "fst (segment_request (mock_host (serve segments)) storage_url mock_start)
     = Inr (raw_response 200 ''OK'' ''date,units'') \<and>
   gunzipSync (mock_host (serve segments)) ''date,units'' = Inl (Error ''incorrect header check'') \<and>
   fst (downloadAnalyticsSegment (mock_host (serve segments)) storage_url mock_start)
     = Inr ''date,units'' \<and>
   fst (segment_request (mock_host (serve segments)) api_segment_url mock_start)
     = Inr (raw_response 200 ''OK'' (CHR 0x1F # CHR 0x8B # ''date,units'')) \<and>
   gunzipSync (mock_host (serve segments)) (CHR 0x1F # CHR 0x8B # ''date,units'') = Inr ''date,units'' \<and>
   fst (downloadAnalyticsSegment (mock_host (serve segments)) api_segment_url mock_start)
     = Inr ''date,units''"
proof -
  let ?H = "mock_host (serve segments)"
  have r1: "fst (segment_request ?H storage_url mock_start) = Inr (raw_response 200 ''OK'' ''date,units'')"
    by (simp add: segment_request_def isS3Url_def storage_url_def await_fetch_def mock_host_sel
          serve_def segments_def)
  have r2: "fst (segment_request ?H api_segment_url mock_start)
     = Inr (raw_response 200 ''OK'' (CHR 0x1F # CHR 0x8B # ''date,units''))"
    by (simp add: segment_request_def isS3Url_def api_segment_url_def storage_url_def
          await_fetch_def mock_host_sel mock_headers serve_def segments_def)
  have k: "ok (raw_response 200 ''OK'' payload)"
          "arrayBuffer (raw_response 200 ''OK'' payload) = Inr payload" for payload
    by (simp_all add: ok_def raw_response_def)
  have z1: "gunzipSync ?H ''date,units'' = Inl (Error ''incorrect header check'')"
    by (simp add: mock_host_def)
  have z2: "gunzipSync ?H (CHR 0x1F # CHR 0x8B # ''date,units'') = Inr ''date,units''"
    by (simp add: mock_host_def)
  from segment_gzip_fallback [OF r1 k] z1
  have "fst (downloadAnalyticsSegment ?H storage_url mock_start) = Inr ''date,units''"
    by (simp add: mock_host_sel)
  moreover from segment_gzip_fallback [OF r2 k] z2
  have "fst (downloadAnalyticsSegment ?H api_segment_url mock_start) = Inr ''date,units''"
    by (simp add: mock_host_sel)
  ultimately show ?thesis using r1 r2 z1 z2 by blast
qed

section \<open>Properties of the review analysis\<close>

lemma count_rating_sum:
  "sum_list (map snd (count_rating r distribution)) = Suc (sum_list (map snd distribution))"
  by (induction r distribution rule: count_rating.induct) simp_all

lemma tally_step:
  "tally (totalRating, distribution, territories) review =
     (totalRating + rating review,
      count_rating (rating review) distribution,
      count_territory (territory review) (rating review) territories)"
  by (simp add: tally_def)

lemma tally_counts:
  "sum_list (map snd (fst (snd (foldl tally (totalRating, distribution, territories) reviews))))
     = sum_list (map snd distribution) + length reviews"
proof (induction reviews arbitrary: totalRating distribution territories)
  case Nil
  show ?case by simp
next
  case (Cons review reviews)
  show ?case
    by (simp add: tally_step Cons.IH count_rating_sum)
qed

text \<open>
  C10. For every list of reviews, \<^verbatim>\<open>totalReviews\<close> is the length of the list and the
  counts of \<^verbatim>\<open>ratingDistribution\<close> add up to it; on the empty list the result has
  average 0, the distribution with 0 at each of 1 to 5, and the trend stable.
\<close>

theorem analyzeReviewSentiment_counts:
  "totalReviews (analyzeReviewSentiment E reviews) = length reviews \<and>
   sum_list (map snd (ratingDistribution (analyzeReviewSentiment E reviews))) = length reviews \<and>
   analyzeReviewSentiment E [] =
     \<lparr>averageRating = zero_num E,
      ratingDistribution = [(1, 0), (2, 0), (3, 0), (4, 0), (5, 0)],
      totalReviews = 0, recentTrend = Stable, territorySummary = []\<rparr>"
proof (intro conjI)
  show "totalReviews (analyzeReviewSentiment E reviews) = length reviews"
    by (simp add: analyzeReviewSentiment_def Let_def split: prod.splits)
next
  show "sum_list (map snd (ratingDistribution (analyzeReviewSentiment E reviews))) = length reviews"
  proof (cases "reviews = []")
    case True
    then show ?thesis by (simp add: analyzeReviewSentiment_def)
  next
    case False
    obtain t d ts where f: "foldl tally (0, [(1, 0), (2, 0), (3, 0), (4, 0), (5, 0)], []) reviews = (t, d, ts)"
      by (cases "foldl tally (0, [(1, 0), (2, 0), (3, 0), (4, 0), (5, 0)], []) reviews") auto
    have "sum_list (map snd d) = length reviews"
      using tally_counts [of 0 "[(1, 0), (2, 0), (3, 0), (4, 0), (5, 0)]" "[]" reviews]
      by (simp add: f)
    with False show ?thesis
      by (simp add: analyzeReviewSentiment_def Let_def f)
  qed
next
  show "analyzeReviewSentiment E [] =
     \<lparr>averageRating = zero_num E,
      ratingDistribution = [(1, 0), (2, 0), (3, 0), (4, 0), (5, 0)],
      totalReviews = 0, recentTrend = Stable, territorySummary = []\<rparr>"
    by (simp add: analyzeReviewSentiment_def)
qed


theorem analyzeReviewSentiment_counts_witness:
  "totalReviews (analyzeReviewSentiment exact_engine
      [review_of 5 ''USA'', review_of 1 ''JPN'', review_of 5 ''USA'']) = 3 \<and>
   ratingDistribution (analyzeReviewSentiment exact_engine
      [review_of 5 ''USA'', review_of 1 ''JPN'', review_of 5 ''USA''])
     = [(1, 1), (2, 0), (3, 0), (4, 0), (5, 2)] \<and>
   sum_list (map snd [(1, 1), (2, 0), (3, 0), (4, 0), (5, 2 :: nat)]) = (3 :: nat)"
proof -
  let ?rs = "[review_of 5 ''USA'', review_of 1 ''JPN'', review_of 5 ''USA'']"
  have d: "ratingDistribution (analyzeReviewSentiment exact_engine ?rs)
             = [(1, 1), (2, 0), (3, 0), (4, 0), (5, 2)]"
    by (simp add: analyzeReviewSentiment_def tally_step review_of_def Let_def)
  from analyzeReviewSentiment_counts [of exact_engine ?rs]
  have "totalReviews (analyzeReviewSentiment exact_engine ?rs) = 3"
    by simp
  with d show ?thesis by simp
qed

end
